theory Spec2Isabelle
  imports Main "HOL-Library.Char_ord" "HOL-Library.List_Lexorder"
begin

section \<open>The relational store\<close>

text \<open>
  The post service (\<^verbatim>\<open>src/unnamed/part_000\<close>) and the scheduled sweep
  (\<^verbatim>\<open>src/src/index.ts\<close>) read and write a relational store through Prisma. The
  store is a record of tables; a table is the list of its rows in storage order.
  Identifiers are strings, compared as the \<^verbatim>\<open>lt\<close>/\<^verbatim>\<open>gt\<close> filters compare them
  (lexicographically); timestamps are integers. Nullable columns are options.
\<close>

record post =
  post_id :: string
  post_content :: "string option"
  post_createdById :: string
  post_commentToId :: "string option"
  post_quotedPostId :: "string option"
  post_createdAt :: int
  post_editedAt :: "int option"
  post_deleted :: "bool option"
  post_estimateLikes :: int
  post_views :: int

record postLike =
  like_id :: string
  like_likedById :: string
  like_postId :: string
  like_createdAt :: int

record postPoll =
  poll_id :: string
  poll_postId :: string

record postPollChoice =
  choice_id :: string
  choice_pollId :: string
  choice_content :: string

record postPollVotedUser =
  vote_id :: string
  vote_userId :: string
  vote_pollId :: string
  vote_pollChoiceId :: string

record attachment =
  att_id :: string
  att_postId :: "string option"
  att_messageId :: "string option"
  att_path :: "string option"
  att_width :: "int option"
  att_height :: "int option"

text \<open>
  \<^verbatim>\<open>FriendStatus\<close> is imported from \<^verbatim>\<open>../types/Friend\<close>, which is not among the
  sources; the service consults \<^verbatim>\<open>FriendStatus.BLOCKED\<close> only, so every other status
  is one constructor.
\<close>

datatype FriendStatus = BLOCKED | OTHER_STATUS

text \<open>
  A \<^verbatim>\<open>Friend\<close> row belongs to \<^verbatim>\<open>userId\<close> and points at \<^verbatim>\<open>recipientId\<close>. The relation
  \<^verbatim>\<open>friends\<close> of a user is the rows the user owns, \<^verbatim>\<open>recipientFriends\<close> the rows that
  point at the user; \<^verbatim>\<open>followers\<close> of a user is the \<^verbatim>\<open>Follower\<close> rows that point at
  the user.
\<close>

record friend =
  friend_userId :: string
  friend_recipientId :: string
  friend_status :: FriendStatus

record follower =
  follower_followedById :: string
  follower_followedToId :: string

datatype PostNotificationType = LIKED | REPLIED | FOLLOWED

record postNotification =
  notif_id :: string
  notif_byId :: string
  notif_toId :: string
  notif_type :: PostNotificationType
  notif_postId :: "string option"

record account =
  account_userId :: string
  account_postNotificationCount :: int

record user =
  user_id :: string
  user_username :: string

record message =
  message_id :: string
  message_createdById :: string
  message_createdAt :: int

record db =
  posts :: "post list"
  postLikes :: "postLike list"
  postPolls :: "postPoll list"
  postPollChoices :: "postPollChoice list"
  postPollVotedUsers :: "postPollVotedUser list"
  attachments :: "attachment list"
  announcementPosts :: "string list"
  friends :: "friend list"
  followers :: "follower list"
  postNotifications :: "postNotification list"
  accounts :: "account list"
  users :: "user list"
  applications :: "string list"
  scheduleAccountContentDelete :: "string list"
  messages :: "message list"

section \<open>Query primitives\<close>

text \<open>
  A JavaScript string is truthy unless it is absent or empty. \<open>ifTruthy x f d\<close> is
  \<^verbatim>\<open>x ? f(x) : d\<close>.
\<close>

definition truthy :: "string option \<Rightarrow> bool" where
  "truthy so = (case so of None \<Rightarrow> False | Some s \<Rightarrow> s \<noteq> [])"

definition ifTruthy :: "string option \<Rightarrow> (string \<Rightarrow> 'a) \<Rightarrow> 'a \<Rightarrow> 'a" where
  "ifTruthy so f d = (case so of None \<Rightarrow> d | Some s \<Rightarrow> if s \<noteq> [] then f s else d)"

text \<open>
  \<^verbatim>\<open>orderBy: { f: 'desc' }\<close> and \<^verbatim>\<open>'asc'\<close>. Rows with equal keys stay in storage
  order.
\<close>

definition orderDesc :: "('a \<Rightarrow> 'k::linorder) \<Rightarrow> 'a list \<Rightarrow> 'a list" where
  "orderDesc f xs = rev (sort_key f (rev xs))"

definition orderAsc :: "('a \<Rightarrow> 'k::linorder) \<Rightarrow> 'a list \<Rightarrow> 'a list" where
  "orderAsc f xs = sort_key f xs"

text \<open>
  \<^verbatim>\<open>take: n\<close> keeps the first \<open>n\<close> rows of the ordered selection; a negative
  \<open>n\<close> pages backwards, keeping the last \<open>-n\<close> rows in their order. \<^verbatim>\<open>cursor\<close>
  starts the selection at the row with that id and \<^verbatim>\<open>skip\<close> drops rows from there.
\<close>

definition prismaSkip :: "nat option \<Rightarrow> 'a list \<Rightarrow> 'a list" where
  "prismaSkip k xs = (case k of None \<Rightarrow> xs | Some n \<Rightarrow> drop n xs)"

definition prismaCursor :: "string option \<Rightarrow> post list \<Rightarrow> post list" where
  "prismaCursor c xs = (case c of None \<Rightarrow> xs | Some i \<Rightarrow> dropWhile (\<lambda>p. post_id p \<noteq> i) xs)"

definition prismaWindow :: "string option \<Rightarrow> nat option \<Rightarrow> int \<Rightarrow> post list \<Rightarrow> post list"
  where
  "prismaWindow c k n xs =
     (if 0 \<le> n then take (nat n) (prismaSkip k (prismaCursor c xs))
      else rev (take (nat (- n)) (prismaSkip k (prismaCursor c (rev xs)))))"

definition prismaTake :: "int \<Rightarrow> 'a list \<Rightarrow> 'a list" where
  "prismaTake n xs = (if 0 \<le> n then take (nat n) xs else rev (take (nat (- n)) (rev xs)))"

text \<open>The relation filters on the author of a post that the queries use.\<close>

definition authorHasBlocked :: "db \<Rightarrow> string \<Rightarrow> string \<Rightarrow> bool" where
  \<comment> \<open>\<^verbatim>\<open>friends: { some: { status: BLOCKED, recipientId: requester } }\<close> on the author\<close>
  "authorHasBlocked s author requester =
     (\<exists>f \<in> set (friends s). friend_userId f = author \<and> friend_status f = BLOCKED
        \<and> friend_recipientId f = requester)"

definition blockedByRequester :: "db \<Rightarrow> string \<Rightarrow> string \<Rightarrow> bool" where
  \<comment> \<open>\<^verbatim>\<open>recipientFriends: { some: { status: BLOCKED, userId: requester } }\<close> on the author\<close>
  "blockedByRequester s author requester =
     (\<exists>f \<in> set (friends s). friend_recipientId f = author \<and> friend_status f = BLOCKED
        \<and> friend_userId f = requester)"

definition followedBy :: "db \<Rightarrow> string \<Rightarrow> string \<Rightarrow> bool" where
  \<comment> \<open>\<^verbatim>\<open>followers: { some: { followedById: userId } }\<close> on the author\<close>
  "followedBy s author userId =
     (\<exists>f \<in> set (followers s). follower_followedToId f = author
        \<and> follower_followedById f = userId)"

section \<open>What a fetched post includes\<close>

record choiceView =
  cv_id :: string
  cv_content :: string
  cv_count_votedUsers :: nat

record pollView =
  pv_id :: string
  pv_count_votedUsers :: nat
  pv_votedUsers :: "string list"
  pv_choices :: "choiceView list"

record attachmentView =
  av_height :: "int option"
  av_width :: "int option"
  av_path :: "string option"
  av_id :: string

record postCount =
  count_likedBy :: nat
  count_comments :: nat

datatype fetchedPost = FetchedPost
  (fp_row: post)
  (fp_poll: "pollView option")
  (fp_commentTo: "fetchedPost option")
  (fp_createdBy: "user option")
  (fp_count: postCount)
  (fp_likedBy: "string list")
  (fp_attachments: "attachmentView list")

definition includeChoice :: "db \<Rightarrow> postPollChoice \<Rightarrow> choiceView" where
  "includeChoice s c =
     \<lparr> cv_id = choice_id c, cv_content = choice_content c,
       cv_count_votedUsers =
         length (filter (\<lambda>v. vote_pollChoiceId v = choice_id c) (postPollVotedUsers s)) \<rparr>"

definition includePoll :: "db \<Rightarrow> string \<Rightarrow> postPoll \<Rightarrow> pollView" where
  "includePoll s requesterUserId pl =
     \<lparr> pv_id = poll_id pl,
       pv_count_votedUsers =
         length (filter (\<lambda>v. vote_pollId v = poll_id pl) (postPollVotedUsers s)),
       pv_votedUsers =
         map vote_pollChoiceId
           (filter (\<lambda>v. vote_pollId v = poll_id pl \<and> vote_userId v = requesterUserId)
              (postPollVotedUsers s)),
       pv_choices =
         map (includeChoice s)
           (orderAsc choice_id
              (filter (\<lambda>c. choice_pollId c = poll_id pl) (postPollChoices s))) \<rparr>"

definition includeAttachment :: "attachment \<Rightarrow> attachmentView" where
  "includeAttachment a =
     \<lparr> av_height = att_height a, av_width = att_width a, av_path = att_path a,
       av_id = att_id a \<rparr>"

text \<open>
  \<^verbatim>\<open>constructInclude(requesterUserId, continueIter)\<close>: the poll with its counts and the
  requester's own vote, the author, the like and live-comment counts, the requester's
  own like, the attachments and, when \<^verbatim>\<open>continueIter\<close> holds, the parent post with
  the same inclusions but no parent of its own.
\<close>

definition constructIncludeInner :: "db \<Rightarrow> string \<Rightarrow> post \<Rightarrow> fetchedPost option \<Rightarrow> fetchedPost"
  where
  "constructIncludeInner s requesterUserId p parent =
     FetchedPost p
       (map_option (includePoll s requesterUserId)
          (find (\<lambda>pl. poll_postId pl = post_id p) (postPolls s)))
       parent
       (find (\<lambda>u. user_id u = post_createdById p) (users s))
       \<lparr> count_likedBy = length (filter (\<lambda>l. like_postId l = post_id p) (postLikes s)),
         count_comments =
           length (filter (\<lambda>c. post_commentToId c = Some (post_id p) \<and> post_deleted c = None)
              (posts s)) \<rparr>
       (map like_id
          (filter (\<lambda>l. like_postId l = post_id p \<and> like_likedById l = requesterUserId)
             (postLikes s)))
       (map includeAttachment (filter (\<lambda>a. att_postId a = Some (post_id p)) (attachments s)))"

definition constructInclude :: "db \<Rightarrow> string \<Rightarrow> post \<Rightarrow> fetchedPost" where
  "constructInclude s requesterUserId p =
     constructIncludeInner s requesterUserId p
       (case post_commentToId p of
          None \<Rightarrow> None
        | Some cid \<Rightarrow>
            map_option (\<lambda>c. constructIncludeInner s requesterUserId c None)
              (find (\<lambda>c. post_id c = cid) (posts s)))"

section \<open>Paginated reads\<close>

text \<open>
  A \<^verbatim>\<open>where\<close> object has at most one condition per key, and spreading a later object
  over it replaces the condition of each key the later object has. The keys that
  \<^verbatim>\<open>fetchPosts\<close> writes are kept apart; \<open>where_other\<close> is the conjunction of the
  conditions under every other key.
\<close>

record postWhere =
  where_id :: "(string \<Rightarrow> bool) option"
  where_createdById :: "(string \<Rightarrow> bool) option"
  where_commentToId :: "(string option \<Rightarrow> bool) option"
  where_createdBy :: "(db \<Rightarrow> string \<Rightarrow> bool) option"
  where_deleted :: "(bool option \<Rightarrow> bool) option"
  where_other :: "db \<Rightarrow> post \<Rightarrow> bool"

definition emptyWhere :: postWhere where
  "emptyWhere =
     \<lparr> where_id = None, where_createdById = None, where_commentToId = None,
       where_createdBy = None, where_deleted = None, where_other = (\<lambda>s p. True) \<rparr>"

definition holds :: "('a \<Rightarrow> bool) option \<Rightarrow> 'a \<Rightarrow> bool" where
  "holds c x = (case c of None \<Rightarrow> True | Some P \<Rightarrow> P x)"

definition postMatches :: "db \<Rightarrow> postWhere \<Rightarrow> post \<Rightarrow> bool" where
  "postMatches s w p =
     (holds (where_id w) (post_id p) \<and> holds (where_createdById w) (post_createdById p)
      \<and> holds (where_commentToId w) (post_commentToId p)
      \<and> holds (map_option (\<lambda>P. P s) (where_createdBy w)) (post_createdById p)
      \<and> holds (where_deleted w) (post_deleted p) \<and> where_other w s p)"

datatype sortOrder = Asc | Desc

datatype postOrderBy =
  ByCreatedAt sortOrder | ById sortOrder | ByEstimateLikes sortOrder | ByViews sortOrder

definition orderWith :: "sortOrder \<Rightarrow> ('a \<Rightarrow> 'k::linorder) \<Rightarrow> 'a list \<Rightarrow> 'a list" where
  "orderWith d f xs = (case d of Asc \<Rightarrow> orderAsc f xs | Desc \<Rightarrow> orderDesc f xs)"

fun applyOrder :: "postOrderBy \<Rightarrow> post list \<Rightarrow> post list" where
  "applyOrder (ByCreatedAt d) xs = orderWith d post_createdAt xs"
| "applyOrder (ById d) xs = orderWith d post_id xs"
| "applyOrder (ByEstimateLikes d) xs = orderWith d post_estimateLikes xs"
| "applyOrder (ByViews d) xs = orderWith d post_views xs"

text \<open>An array of orderings sorts by its first entry, ties by the next, and so on.\<close>

definition applyOrderBy :: "postOrderBy list \<Rightarrow> post list \<Rightarrow> post list" where
  "applyOrderBy obs xs = foldr applyOrder obs xs"

record FetchPostsOpts =
  fpo_userId :: "string option"
  fpo_postId :: "string option"
  fpo_requesterUserId :: string
  fpo_withReplies :: bool
  fpo_bypassBlocked :: bool
  fpo_hideIfBlockedByMe :: bool
  fpo_limit :: "int option"
  fpo_afterId :: "string option"
  fpo_beforeId :: "string option"
  fpo_where :: "postWhere option"
  fpo_orderBy :: "postOrderBy list option"
  fpo_skip :: "nat option"
  fpo_cursor :: "string option"

text \<open>
  \<^verbatim>\<open>opts.limit ? (opts.limit > 30 ? 30 : opts.limit) : 30\<close>, the \<^verbatim>\<open>take\<close> of both
  \<^verbatim>\<open>fetchPosts\<close> and \<^verbatim>\<open>getFeed\<close>. An absent limit and the limit 0 are falsy.
\<close>

definition pageTake :: "int option \<Rightarrow> int" where
  "pageTake limit =
     (case limit of
        None \<Rightarrow> 30
      | Some l \<Rightarrow> if l \<noteq> 0 then (if l > 30 then 30 else l) else 30)"

text \<open>The \<^verbatim>\<open>where\<close> object of \<^verbatim>\<open>fetchPosts\<close>, spread by spread.\<close>

definition fetchPostsWhere :: "FetchPostsOpts \<Rightarrow> postWhere" where
  "fetchPostsWhere opts =
     (let w0 = (case fpo_where opts of None \<Rightarrow> emptyWhere | Some w \<Rightarrow> w);
          w1 = ifTruthy (fpo_afterId opts) (\<lambda>a. w0\<lparr>where_id := Some (\<lambda>i. i < a)\<rparr>) w0;
          w2 = ifTruthy (fpo_beforeId opts) (\<lambda>b. w1\<lparr>where_id := Some (\<lambda>i. i > b)\<rparr>) w1;
          w3 = ifTruthy (fpo_userId opts)
                 (\<lambda>u. w2\<lparr>where_createdById := Some (\<lambda>c. c = u)\<rparr>) w2;
          w4 = (if \<not> fpo_withReplies opts
                then w3\<lparr>where_commentToId := Some (\<lambda>c. c = None)\<rparr> else w3);
          w5 = ifTruthy (fpo_postId opts)
                 (\<lambda>i. w4\<lparr>where_commentToId := Some (\<lambda>c. c = Some i)\<rparr>) w4;
          w6 = (if \<not> fpo_bypassBlocked opts
                then w5\<lparr>where_createdBy := Some (\<lambda>s author.
                       (if fpo_hideIfBlockedByMe opts
                        then \<not> blockedByRequester s author (fpo_requesterUserId opts)
                        else True)
                       \<and> \<not> authorHasBlocked s author (fpo_requesterUserId opts))\<rparr>
                else w5)
      in w6\<lparr>where_deleted := Some (\<lambda>d. d = None)\<rparr>)"

text \<open>
  \<^verbatim>\<open>fetchPosts\<close>: the rows of the page in the requested order (newest first when none
  is requested), each with its inclusions, reversed. \<^verbatim>\<open>additionalInclude\<close> adds
  relations to each returned post and selects nothing; \<^verbatim>\<open>updateViews\<close> hands the ids to
  the view cache, which is not part of the store. Neither is modelled.
\<close>

definition fetchPostsPage :: "db \<Rightarrow> FetchPostsOpts \<Rightarrow> post list" where
  "fetchPostsPage s opts =
     prismaWindow (fpo_cursor opts) (fpo_skip opts) (pageTake (fpo_limit opts))
       ((case fpo_orderBy opts of
           None \<Rightarrow> applyOrderBy [ByCreatedAt Desc]
         | Some obs \<Rightarrow> applyOrderBy obs)
          (filter (postMatches s (fetchPostsWhere opts)) (posts s)))"

definition fetchPosts :: "db \<Rightarrow> FetchPostsOpts \<Rightarrow> fetchedPost list" where
  "fetchPosts s opts =
     rev (map (constructInclude s (fpo_requesterUserId opts)) (fetchPostsPage s opts))"

record fetchLinkedPostsOpts =
  flo_userId :: string
  flo_requesterUserId :: string
  flo_bypassBlocked :: bool

definition likedPostOf :: "db \<Rightarrow> postLike \<Rightarrow> post option" where
  "likedPostOf s l = find (\<lambda>p. post_id p = like_postId l) (posts s)"

text \<open>
  \<^verbatim>\<open>fetchLikedPosts\<close>: the user's likes, latest like first, at most 50 of them; the
  posts they point at, reversed.
\<close>

definition fetchLikedPostsWhere :: "db \<Rightarrow> fetchLinkedPostsOpts \<Rightarrow> postLike \<Rightarrow> bool" where
  "fetchLikedPostsWhere s opts l =
     (like_likedById l = flo_userId opts
      \<and> (case likedPostOf s l of
           None \<Rightarrow> False
         | Some p \<Rightarrow>
             (if \<not> flo_bypassBlocked opts
              then \<not> authorHasBlocked s (post_createdById p) (flo_requesterUserId opts)
              else True)))"

definition fetchLikedPostsLikes :: "db \<Rightarrow> fetchLinkedPostsOpts \<Rightarrow> postLike list" where
  "fetchLikedPostsLikes s opts =
     prismaTake 50 (orderDesc like_createdAt (filter (fetchLikedPostsWhere s opts) (postLikes s)))"

definition fetchLikedPosts :: "db \<Rightarrow> fetchLinkedPostsOpts \<Rightarrow> fetchedPost list" where
  "fetchLikedPosts s opts =
     rev (List.map_filter
            (\<lambda>l. map_option (constructInclude s (flo_requesterUserId opts)) (likedPostOf s l))
            (fetchLikedPostsLikes s opts))"

record GetFeedOpts =
  gfo_userId :: string
  gfo_afterId :: "string option"
  gfo_beforeId :: "string option"
  gfo_limit :: "int option"

text \<open>
  \<^verbatim>\<open>getFeed\<close>: live top-level posts of the user and of the users they follow, newest
  first, as selected.
\<close>

definition getFeedWhere :: "db \<Rightarrow> GetFeedOpts \<Rightarrow> post \<Rightarrow> bool" where
  "getFeedWhere s opts p =
     (holds
        (let c0 = None;
             c1 = ifTruthy (gfo_afterId opts) (\<lambda>a. Some (\<lambda>i. i < a)) c0
         in ifTruthy (gfo_beforeId opts) (\<lambda>b. Some (\<lambda>i. i > b)) c1)
        (post_id p)
      \<and> post_commentToId p = None \<and> post_deleted p = None
      \<and> (post_createdById p = gfo_userId opts
           \<or> followedBy s (post_createdById p) (gfo_userId opts)))"

definition getFeedPage :: "db \<Rightarrow> GetFeedOpts \<Rightarrow> post list" where
  "getFeedPage s opts =
     prismaTake (pageTake (gfo_limit opts))
       (orderDesc post_createdAt (filter (getFeedWhere s opts) (posts s)))"

definition getFeed :: "db \<Rightarrow> GetFeedOpts \<Rightarrow> fetchedPost list" where
  "getFeed s opts = map (constructInclude s (gfo_userId opts)) (getFeedPage s opts)"

section \<open>Fetching one post\<close>

text \<open>
  \<^verbatim>\<open>isUserBlocked\<close> and \<^verbatim>\<open>getBlockedUserIds\<close> are imported from
  \<^verbatim>\<open>./User/User\<close>, which is not among the sources. They are parameters of every
  operation that calls them: queries on the \<^verbatim>\<open>Friend\<close> table, called as
  \<^verbatim>\<open>isUserBlocked(requesterId, otherId)\<close> and
  \<^verbatim>\<open>getBlockedUserIds(userIds, requesterId)\<close>.
\<close>

record UserService =
  isUserBlocked :: "friend list \<Rightarrow> string \<Rightarrow> string \<Rightarrow> bool"
  getBlockedUserIds :: "friend list \<Rightarrow> string list \<Rightarrow> string \<Rightarrow> string list"

text \<open>
  What a single fetch returns: the post with its inclusions, or the
  \<^verbatim>\<open>BlockedPost\<close> object that \<^verbatim>\<open>constructBlockedPostTemplate\<close> builds, whose keys
  are \<^verbatim>\<open>id\<close>, \<^verbatim>\<open>commentToId\<close>, \<^verbatim>\<open>createdBy\<close>, \<^verbatim>\<open>commentTo\<close>, \<^verbatim>\<open>quotedPostId\<close> and
  \<^verbatim>\<open>block\<close>.
\<close>

datatype postView =
  Post fetchedPost
| BlockedPost
    (bp_id: string)
    (bp_commentToId: "string option")
    (bp_createdBy: "user option")
    (bp_commentTo: "postView option")
    (bp_quotedPostId: "string option")
    (bp_block: bool)

fun constructBlockedPostTemplate ::
  "UserService \<Rightarrow> db \<Rightarrow> string \<Rightarrow> bool \<Rightarrow> fetchedPost \<Rightarrow> postView" where
  "constructBlockedPostTemplate U s requesterUserId bypassBlocked
       (FetchedPost row poll commentTo createdBy cnt likedBy atts) =
     BlockedPost (post_id row) (post_commentToId row) createdBy
       (case commentTo of
          None \<Rightarrow> None
        | Some c \<Rightarrow>
            if \<not> bypassBlocked
               \<and> isUserBlocked U (friends s) requesterUserId (post_createdById (fp_row c))
            then Some (constructBlockedPostTemplate U s requesterUserId bypassBlocked c)
            else Some (Post c))
       (post_quotedPostId row) True"

record FetchPostOpts =
  fo_postId :: string
  fo_requesterUserId :: string
  fo_bypassBlocked :: bool

definition fetchPost :: "UserService \<Rightarrow> db \<Rightarrow> FetchPostOpts \<Rightarrow> postView option" where
  "fetchPost U s opts =
     (case find (\<lambda>p. post_id p = fo_postId opts) (orderDesc post_createdAt (posts s)) of
        None \<Rightarrow> None
      | Some p \<Rightarrow>
          (let post = constructInclude s (fo_requesterUserId opts) p
           in if \<not> fo_bypassBlocked opts
                 \<and> isUserBlocked U (friends s) (fo_requesterUserId opts) (post_createdById p)
              then Some (constructBlockedPostTemplate U s (fo_requesterUserId opts)
                           (fo_bypassBlocked opts) post)
              else Some (Post post)))"

section \<open>Writes\<close>

text \<open>
  A service call returns \<^verbatim>\<open>[result, null]\<close> or \<^verbatim>\<open>[null, generateError(message)]\<close>, or
  its promise is rejected by a store call that the code does not guard. Every write
  returns the store it leaves. Identifiers from \<^verbatim>\<open>generateId()\<close>, the clock behind the
  column defaults, and whether the store rejects a write that the code guards with
  \<^verbatim>\<open>catch\<close> are arguments of the call.
\<close>

datatype 'a result = Ok 'a | Err string | Throws

subsection \<open>Notifications\<close>

record CreatePostNotificationProps =
  cpn_toId :: "string option"
  cpn_byId :: string
  cpn_postId :: "string option"
  cpn_type :: PostNotificationType

text \<open>\<^verbatim>\<open>findFirst({ where: { id: postId } })\<close>: an undefined \<^verbatim>\<open>postId\<close> is no condition.\<close>

definition findPostById :: "db \<Rightarrow> string option \<Rightarrow> post option" where
  "findPostById s pid =
     find (\<lambda>p. case pid of None \<Rightarrow> True | Some i \<Rightarrow> post_id p = i) (posts s)"

definition commentToOf :: "db \<Rightarrow> post \<Rightarrow> post option" where
  "commentToOf s p =
     (case post_commentToId p of
        None \<Rightarrow> None
      | Some cid \<Rightarrow> find (\<lambda>c. post_id c = cid) (posts s))"

text \<open>
  The recipient that \<^verbatim>\<open>createPostNotification\<close> settles on before its self-check;
  \<open>None\<close> where the function returns early.
\<close>

definition resolveToId :: "db \<Rightarrow> CreatePostNotificationProps \<Rightarrow> string option" where
  "resolveToId s opts =
     (case (if cpn_type opts = LIKED \<or> cpn_type opts = REPLIED
            then (case findPostById s (cpn_postId opts) of
                    None \<Rightarrow> None
                  | Some post \<Rightarrow> Some (Some (post_createdById post)))
            else Some (cpn_toId opts)) of
        None \<Rightarrow> None
      | Some toId1 \<Rightarrow>
          (case (if cpn_type opts = REPLIED
                 then (case findPostById s (cpn_postId opts) of
                         None \<Rightarrow> None
                       | Some post \<Rightarrow> Some (map_option post_createdById (commentToOf s post)))
                 else Some toId1) of
             None \<Rightarrow> None
           | Some toId2 \<Rightarrow> if truthy toId2 then toId2 else None))"

definition notificationExists ::
  "db \<Rightarrow> string \<Rightarrow> string \<Rightarrow> PostNotificationType \<Rightarrow> string option \<Rightarrow> bool" where
  "notificationExists s byId toId ty pid =
     (find (\<lambda>n. notif_byId n = byId \<and> notif_toId n = toId \<and> notif_type n = ty
               \<and> (case pid of None \<Rightarrow> True | Some i \<Rightarrow> notif_postId n = Some i))
        (postNotifications s) \<noteq> None)"

definition incrementPostNotificationCount :: "string \<Rightarrow> account list \<Rightarrow> account list" where
  "incrementPostNotificationCount toId as =
     map (\<lambda>a. if account_userId a = toId
              then a\<lparr>account_postNotificationCount := account_postNotificationCount a + 1\<rparr>
              else a) as"

text \<open>
  The row and the counter are one transaction whose failure is swallowed: it fails when
  the store rejects it (\<open>txFails\<close>) and when the recipient has no account row to update.
\<close>

definition createPostNotification ::
  "bool \<Rightarrow> string \<Rightarrow> CreatePostNotificationProps \<Rightarrow> db \<Rightarrow> db" where
  "createPostNotification txFails newId opts s =
     (case resolveToId s opts of
        None \<Rightarrow> s
      | Some toId \<Rightarrow>
          if toId = cpn_byId opts then s
          else if notificationExists s (cpn_byId opts) toId (cpn_type opts) (cpn_postId opts)
          then s
          else if txFails \<or> find (\<lambda>a. account_userId a = toId) (accounts s) = None then s
          else s\<lparr> postNotifications := postNotifications s @
                     [\<lparr> notif_id = newId, notif_byId = cpn_byId opts, notif_toId = toId,
                        notif_type = cpn_type opts, notif_postId = cpn_postId opts \<rparr>],
                   accounts := incrementPostNotificationCount toId (accounts s) \<rparr>)"


subsection \<open>Likes\<close>

definition incrementEstimateLikes :: "string \<Rightarrow> post list \<Rightarrow> post list" where
  "incrementEstimateLikes postId ps =
     map (\<lambda>p. if post_id p = postId
              then p\<lparr>post_estimateLikes := post_estimateLikes p + 1\<rparr> else p) ps"

text \<open>
  \<^verbatim>\<open>likePost\<close>. \<open>createFails\<close> says that the store rejects the insert of the like row,
  which the code catches. The notification is started without being awaited; it runs
  after the post is fetched.
\<close>

definition likePost ::
  "UserService \<Rightarrow> string \<Rightarrow> string \<Rightarrow> int \<Rightarrow> bool \<Rightarrow> bool \<Rightarrow> string \<Rightarrow> string \<Rightarrow> db
     \<Rightarrow> postView option result \<times> db" where
  "likePost U newLikeId newNotificationId now createFails txFails userId postId s =
     (case find (\<lambda>p. post_deleted p = None \<and> post_id p = postId) (posts s) of
        None \<Rightarrow> (Err ''Post not found'', s)
      | Some post \<Rightarrow>
          if find (\<lambda>l. like_likedById l = userId \<and> like_postId l = postId) (postLikes s) \<noteq> None
          then (Err ''You have already liked this post!'', s)
          else if getBlockedUserIds U (friends s) [post_createdById post] userId \<noteq> []
          then (Err ''You have been blocked by this user!'', s)
          else
            (let s1 = s\<lparr>posts := incrementEstimateLikes postId (posts s)\<rparr>
             in if createFails then (Err ''Something went wrong! Try again later.'', s1)
                else
                  (let s2 = s1\<lparr>postLikes := postLikes s1 @
                               [\<lparr> like_id = newLikeId, like_likedById = userId,
                                  like_postId = postId, like_createdAt = now \<rparr>]\<rparr>;
                       newPost = fetchPost U s2
                         \<lparr> fo_postId = postId, fo_requesterUserId = userId,
                           fo_bypassBlocked = False \<rparr>
                   in (Ok newPost,
                       createPostNotification txFails newNotificationId
                         \<lparr> cpn_toId = None, cpn_byId = userId, cpn_postId = Some postId,
                           cpn_type = LIKED \<rparr> s2))))"

text \<open>\<^verbatim>\<open>getPostLikes\<close>: the likes of a live post, latest first, each with its user.\<close>

definition getPostLikes :: "db \<Rightarrow> string \<Rightarrow> (user option \<times> int) list result" where
  "getPostLikes s postId =
     (case find (\<lambda>p. post_deleted p = None \<and> post_id p = postId) (posts s) of
        None \<Rightarrow> Err ''Post not found''
      | Some post \<Rightarrow>
          Ok (map (\<lambda>l. (find (\<lambda>u. user_id u = like_likedById l) (users s), like_createdAt l))
                (orderDesc like_createdAt
                   (filter (\<lambda>l. like_postId l = postId) (postLikes s)))))"

subsection \<open>Editing\<close>

definition isSpace :: "char \<Rightarrow> bool" where
  "isSpace c = (c \<in> set [CHR '' '', CHR 0x09, CHR 0x0A, CHR 0x0B, CHR 0x0C, CHR 0x0D])"

definition trim :: "string \<Rightarrow> string" where
  "trim str = rev (dropWhile isSpace (rev (dropWhile isSpace str)))"

text \<open>
  \<^verbatim>\<open>editPost\<close>. \<^verbatim>\<open>replaceBadWords\<close> is imported from \<^verbatim>\<open>../common/badWords\<close>, not among
  the sources, and is a parameter. \<open>updateFails\<close> says that the store rejects the
  update, which the code catches.
\<close>

definition editPost ::
  "(string \<Rightarrow> string) \<Rightarrow> int \<Rightarrow> bool \<Rightarrow> string \<Rightarrow> string \<Rightarrow> string \<Rightarrow> db
     \<Rightarrow> fetchedPost result \<times> db" where
  "editPost replaceBadWords now updateFails editById postId content s =
     (case find (\<lambda>p. post_createdById p = editById \<and> post_deleted p = None \<and> post_id p = postId)
             (posts s) of
        None \<Rightarrow> (Err ''Post not found'', s)
      | Some post \<Rightarrow>
          if updateFails then (Err ''Something went wrong. Try again later.'', s)
          else
            (let s1 = s\<lparr>posts := map (\<lambda>p. if post_id p = postId
                                then p\<lparr> post_content := Some (replaceBadWords (trim content)),
                                        post_editedAt := Some now \<rparr>
                                else p) (posts s)\<rparr>
             in (Ok (constructInclude s1 editById
                       (post\<lparr> post_content := Some (replaceBadWords (trim content)),
                              post_editedAt := Some now \<rparr>)), s1)))"

subsection \<open>Deleting\<close>

text \<open>
  \<^verbatim>\<open>deletePost\<close>: the author's post is emptied and flagged, and its likes, poll,
  attachments and announcement entry are removed, in one transaction.
  \<open>deletePostFile\<close> is the path it hands to \<^verbatim>\<open>deleteFile\<close> beforehand.
\<close>

definition deletePostFile :: "db \<Rightarrow> string \<Rightarrow> string \<Rightarrow> string option" where
  "deletePostFile s postId userId =
     (case find (\<lambda>p. post_id p = postId \<and> post_createdById p = userId) (posts s) of
        None \<Rightarrow> None
      | Some post \<Rightarrow>
          (case filter (\<lambda>a. att_postId a = Some postId) (attachments s) of
             [] \<Rightarrow> None
           | a # _ \<Rightarrow> if truthy (att_path a) then att_path a else None))"

definition deletePost :: "string \<Rightarrow> string \<Rightarrow> db \<Rightarrow> bool result \<times> db" where
  "deletePost postId userId s =
     (case find (\<lambda>p. post_id p = postId \<and> post_createdById p = userId) (posts s) of
        None \<Rightarrow> (Err ''Post does not exist!'', s)
      | Some post \<Rightarrow>
          (Ok True,
           s\<lparr> posts := map (\<lambda>p. if post_id p = postId
                                then p\<lparr> post_content := None, post_deleted := Some True,
                                        post_estimateLikes := 0 \<rparr>
                                else p) (posts s),
              postLikes := filter (\<lambda>l. like_postId l \<noteq> postId) (postLikes s),
              postPolls := filter (\<lambda>pl. poll_postId pl \<noteq> postId) (postPolls s),
              attachments := filter (\<lambda>a. att_postId a \<noteq> Some postId) (attachments s),
              announcementPosts := filter (\<lambda>i. i \<noteq> postId) (announcementPosts s) \<rparr>))"

text \<open>
  One run of the timer of \<^verbatim>\<open>scheduleDeleteAccountContent\<close>: likes of users that have
  neither an account nor an application, then at most 1000 messages and 1000 live posts
  of users scheduled for content deletion. It returns the store and the paths handed to
  \<^verbatim>\<open>deleteImageBatch\<close>.
\<close>

definition scheduledForContentDeletion :: "db \<Rightarrow> string \<Rightarrow> bool" where
  "scheduledForContentDeletion s userId = (userId \<in> set (scheduleAccountContentDelete s))"

definition firstPaths :: "attachment list list \<Rightarrow> string option list" where
  "firstPaths ass = map (\<lambda>as. att_path (hd as)) (filter (\<lambda>as. as \<noteq> []) ass)"

definition deleteAccountContent :: "db \<Rightarrow> db \<times> string option list" where
  "deleteAccountContent s =
     (let likedPosts =
            take 1000
              (filter (\<lambda>l. find (\<lambda>a. account_userId a = like_likedById l) (accounts s) = None
                         \<and> like_likedById l \<notin> set (applications s))
                 (postLikes s));
          ids = map like_id likedPosts;
          s1 = (if likedPosts \<noteq> []
                then s\<lparr>postLikes := filter (\<lambda>l. like_id l \<notin> set ids) (postLikes s)\<rparr> else s);
          msgs =
            take 1000
              (orderDesc message_createdAt
                 (filter (\<lambda>m. scheduledForContentDeletion s1 (message_createdById m))
                    (messages s1)));
          messageAttachments =
            firstPaths
              (map (\<lambda>m. filter (\<lambda>a. att_messageId a = Some (message_id m)) (attachments s1))
                 msgs);
          messageIds = map message_id msgs;
          ps =
            take 1000
              (orderDesc post_createdAt
                 (filter (\<lambda>p. post_deleted p = None
                            \<and> scheduledForContentDeletion s1 (post_createdById p))
                    (posts s1)));
          postAttachments =
            firstPaths
              (map (\<lambda>p. filter (\<lambda>a. att_postId a = Some (post_id p)) (attachments s1)) ps);
          postIds = map post_id ps;
          s2 = (if messageIds \<noteq> []
                then s1\<lparr>messages :=
                        filter (\<lambda>m. message_id m \<notin> set messageIds) (messages s1)\<rparr>
                else s1);
          s3 = (if postIds \<noteq> []
                then s2\<lparr> posts := map (\<lambda>p. if post_id p \<in> set postIds
                                          then p\<lparr> post_content := None,
                                                  post_deleted := Some True \<rparr>
                                          else p) (posts s2),
                         postLikes :=
                           filter (\<lambda>l. like_postId l \<notin> set postIds) (postLikes s2),
                         postPolls :=
                           filter (\<lambda>pl. poll_postId pl \<notin> set postIds) (postPolls s2),
                         attachments :=
                           filter (\<lambda>a. case att_postId a of
                                          None \<Rightarrow> True
                                        | Some i \<Rightarrow> i \<notin> set postIds) (attachments s2) \<rparr>
                else s2)
      in (s3, postAttachments @ messageAttachments))"

subsection \<open>Voting\<close>

text \<open>
  \<^verbatim>\<open>votePostPoll\<close>. The poll is selected with its post's author; the post is a required
  relation of the poll, so a poll row without its post rejects the query.
\<close>

definition votePostPoll ::
  "UserService \<Rightarrow> string \<Rightarrow> string \<Rightarrow> string \<Rightarrow> string \<Rightarrow> string \<Rightarrow> db
     \<Rightarrow> bool result \<times> db" where
  "votePostPoll U newId requesterId postId pollId choiceId s =
     (case find (\<lambda>pl. poll_postId pl = postId \<and> poll_id pl = pollId) (postPolls s) of
        None \<Rightarrow> (Err ''Poll not found.'', s)
      | Some poll \<Rightarrow>
          (case find (\<lambda>p. post_id p = poll_postId poll) (posts s) of
             None \<Rightarrow> (Throws, s)
           | Some post \<Rightarrow>
               if getBlockedUserIds U (friends s) [post_createdById post] requesterId \<noteq> []
               then (Err ''You have been blocked by this user!'', s)
               else if find (\<lambda>c. choice_pollId c = pollId \<and> choice_id c = choiceId)
                         (postPollChoices s) = None
               then (Err ''Poll not found.'', s)
               else if find (\<lambda>v. vote_userId v = requesterId \<and> vote_pollId v = pollId)
                         (postPollVotedUsers s) \<noteq> None
               then (Err ''Already voted.'', s)
               else (Ok True,
                     s\<lparr>postPollVotedUsers := postPollVotedUsers s @
                         [\<lparr> vote_id = newId, vote_userId = requesterId, vote_pollId = pollId,
                            vote_pollChoiceId = choiceId \<rparr>]\<rparr>)))"

section \<open>Stated properties\<close>



text \<open>The row that \<^verbatim>\<open>createPostNotification\<close> inserts for a recipient.\<close>

definition newNotification :: "string \<Rightarrow> CreatePostNotificationProps \<Rightarrow> string \<Rightarrow> postNotification" where
  "newNotification newId opts toId =
     \<lparr> notif_id = newId, notif_byId = cpn_byId opts, notif_toId = toId,
       notif_type = cpn_type opts, notif_postId = cpn_postId opts \<rparr>"

text \<open>What the soft-delete invariant asks of a deleted post \<open>p\<close>.\<close>

definition softDeleted :: "db \<Rightarrow> post \<Rightarrow> bool" where
  "softDeleted s p =
     (post_content p = None \<and> post_estimateLikes p = 0
      \<and> filter (\<lambda>l. like_postId l = post_id p) (postLikes s) = []
      \<and> filter (\<lambda>pl. poll_postId pl = post_id p) (postPolls s) = []
      \<and> filter (\<lambda>a. att_postId a = Some (post_id p)) (attachments s) = [])"

text \<open>The identifiers along the \<^verbatim>\<open>commentTo\<close> chain of a fetched post and of a view.\<close>

fun fetchedChain :: "fetchedPost \<Rightarrow> string list" where
  "fetchedChain (FetchedPost row poll commentTo createdBy cnt likedBy atts) =
     post_id row # (case commentTo of None \<Rightarrow> [] | Some c \<Rightarrow> fetchedChain c)"

fun viewChain :: "postView \<Rightarrow> string list" where
  "viewChain (Post fp) = fetchedChain fp"
| "viewChain (BlockedPost i cid u commentTo q b) =
     i # (case commentTo of None \<Rightarrow> [] | Some v \<Rightarrow> viewChain v)"

section \<open>Example stores\<close>

definition emptyDb :: db where
  "emptyDb =
     \<lparr> posts = [], postLikes = [], postPolls = [], postPollChoices = [],
       postPollVotedUsers = [], attachments = [], announcementPosts = [], friends = [],
       followers = [], postNotifications = [], accounts = [], users = [], applications = [],
       scheduleAccountContentDelete = [], messages = [] \<rparr>"

definition mkPost :: "string \<Rightarrow> string \<Rightarrow> int \<Rightarrow> post" where
  "mkPost i author t =
     \<lparr> post_id = i, post_content = Some ''hello'', post_createdById = author,
       post_commentToId = None, post_quotedPostId = None, post_createdAt = t,
       post_editedAt = None, post_deleted = None, post_estimateLikes = 0, post_views = 0 \<rparr>"

definition mkAccount :: "string \<Rightarrow> account" where
  "mkAccount u = \<lparr> account_userId = u, account_postNotificationCount = 0 \<rparr>"

definition fetchPostsDefaults :: "string \<Rightarrow> FetchPostsOpts" where
  "fetchPostsDefaults requester =
     \<lparr> fpo_userId = None, fpo_postId = None, fpo_requesterUserId = requester,
       fpo_withReplies = False, fpo_bypassBlocked = False, fpo_hideIfBlockedByMe = False,
       fpo_limit = None, fpo_afterId = None, fpo_beforeId = None, fpo_where = None,
       fpo_orderBy = None, fpo_skip = None, fpo_cursor = None \<rparr>"

definition getFeedDefaults :: "string \<Rightarrow> GetFeedOpts" where
  "getFeedDefaults u =
     \<lparr> gfo_userId = u, gfo_afterId = None, gfo_beforeId = None, gfo_limit = None \<rparr>"

text \<open>Three posts of one author, created at times 1, 2 and 3.\<close>

definition feedDb :: db where
  "feedDb = emptyDb\<lparr>posts := [mkPost ''p1'' ''ann'' 1, mkPost ''p2'' ''ann'' 2,
                               mkPost ''p3'' ''ann'' 3]\<rparr>"

text \<open>One user has liked 31 posts.\<close>

definition manyLikesDb :: db where
  "manyLikesDb = emptyDb
     \<lparr> posts := map (\<lambda>n. mkPost [CHR ''p'', char_of (65 + n)] ''ann'' (int n)) [0..<31],
       postLikes :=
         map (\<lambda>n. \<lparr> like_id = [CHR ''l'', char_of (65 + n)], like_likedById = ''fan'',
                     like_postId = [CHR ''p'', char_of (65 + n)], like_createdAt = int n \<rparr>)
           [0..<31] \<rparr>"

text \<open>
  The viewer \<open>bob\<close> has blocked the author \<open>ann\<close>; the author \<open>eve\<close> has blocked
  \<open>bob\<close>; \<open>bob\<close> has liked a post of each.
\<close>

definition blockDb :: db where
  "blockDb = emptyDb
     \<lparr> posts := [mkPost ''p1'' ''ann'' 1, mkPost ''p2'' ''eve'' 2, mkPost ''p3'' ''joe'' 3],
       postLikes :=
         [\<lparr> like_id = ''l1'', like_likedById = ''bob'', like_postId = ''p1'',
             like_createdAt = 4 \<rparr>,
          \<lparr> like_id = ''l2'', like_likedById = ''bob'', like_postId = ''p2'',
             like_createdAt = 5 \<rparr>],
       friends :=
         [\<lparr> friend_userId = ''bob'', friend_recipientId = ''ann'', friend_status = BLOCKED \<rparr>,
          \<lparr> friend_userId = ''eve'', friend_recipientId = ''bob'', friend_status = BLOCKED \<rparr>]
     \<rparr>"

text \<open>
  Modelled from the spec: \<^verbatim>\<open>./User/User\<close> is not among the sources. The spec's gate
  is bidirectional: a user is blocked relative to the requester when either has a
  \<^verbatim>\<open>BLOCKED\<close> row that points at the other. The examples use it where an operation
  needs a \<open>UserService\<close>.
\<close>

definition specUserService :: UserService where
  "specUserService =
     \<lparr> isUserBlocked = (\<lambda>fs requester other.
          \<exists>f \<in> set fs. friend_status f = BLOCKED
             \<and> (friend_userId f = other \<and> friend_recipientId f = requester
                  \<or> friend_userId f = requester \<and> friend_recipientId f = other)),
       getBlockedUserIds = (\<lambda>fs userIds requester.
          filter (\<lambda>u. \<exists>f \<in> set fs. friend_status f = BLOCKED
             \<and> (friend_userId f = u \<and> friend_recipientId f = requester
                  \<or> friend_userId f = requester \<and> friend_recipientId f = u)) userIds) \<rparr>"

text \<open>A post with a poll of two choices.\<close>

definition pollDb :: db where
  "pollDb = emptyDb
     \<lparr> posts := [mkPost ''p1'' ''ann'' 1],
       postPolls := [\<lparr> poll_id = ''poll1'', poll_postId = ''p1'' \<rparr>],
       postPollChoices :=
         [\<lparr> choice_id = ''c1'', choice_pollId = ''poll1'', choice_content = ''yes'' \<rparr>,
          \<lparr> choice_id = ''c2'', choice_pollId = ''poll1'', choice_content = ''no'' \<rparr>] \<rparr>"

text \<open>
  A post of \<open>ann\<close> and a reply of \<open>bob\<close> to it; \<open>ann\<close>, \<open>bob\<close> and \<open>joe\<close> have
  accounts.
\<close>

definition notifyDb :: db where
  "notifyDb = emptyDb
     \<lparr> posts := [mkPost ''p1'' ''ann'' 1, (mkPost ''p2'' ''bob'' 2)\<lparr>post_commentToId := Some ''p1''\<rparr>],
       accounts := [mkAccount ''ann'', mkAccount ''bob'', mkAccount ''joe''] \<rparr>"

text \<open>
  A liked post of \<open>ann\<close>, whose account is scheduled for content deletion.
\<close>

definition sweepDb :: db where
  "sweepDb = emptyDb
     \<lparr> posts := [(mkPost ''p1'' ''ann'' 1)\<lparr>post_estimateLikes := 1\<rparr>],
       postLikes := [\<lparr> like_id = ''l1'', like_likedById = ''bob'', like_postId = ''p1'',
                       like_createdAt = 2 \<rparr>],
       accounts := [mkAccount ''bob''],
       scheduleAccountContentDelete := [''ann''] \<rparr>"

text \<open>
  A thread: \<open>p3\<close> replies to \<open>p2\<close>, which replies to \<open>p1\<close>. Their author \<open>eve\<close> has
  blocked \<open>bob\<close>; \<open>ann\<close>, the author of \<open>p1\<close>, has not.
\<close>

definition threadDb :: db where
  "threadDb = emptyDb
     \<lparr> posts := [mkPost ''p1'' ''ann'' 1,
                  (mkPost ''p2'' ''eve'' 2)\<lparr>post_commentToId := Some ''p1''\<rparr>,
                  (mkPost ''p3'' ''eve'' 3)\<lparr>post_commentToId := Some ''p2'',
                                            post_quotedPostId := Some ''p0''\<rparr>],
       friends :=
         [\<lparr> friend_userId = ''eve'', friend_recipientId = ''bob'', friend_status = BLOCKED \<rparr>],
       users := [\<lparr> user_id = ''ann'', user_username = ''Ann'' \<rparr>,
                 \<lparr> user_id = ''eve'', user_username = ''Eve'' \<rparr>] \<rparr>"

text \<open>The three posts of \<open>feedDb\<close> after \<open>ann\<close> has deleted \<open>p1\<close>.\<close>

definition deletedDb :: db where
  "deletedDb = snd (deletePost ''p1'' ''ann'' feedDb)"

text \<open>The thread of \<open>threadDb\<close> after \<open>eve\<close> has deleted \<open>p3\<close>.\<close>

definition blockedDeletedDb :: db where
  "blockedDeletedDb = snd (deletePost ''p3'' ''eve'' threadDb)"

section \<open>Facts about the query primitives\<close>

lemma set_orderDesc: "set (orderDesc f xs) = set xs"
  by (simp add: orderDesc_def)

lemma length_orderDesc: "length (orderDesc f xs) = length xs"
  by (simp add: orderDesc_def)

lemma set_prismaSkip: "set (prismaSkip k xs) \<subseteq> set xs"
  by (auto simp: prismaSkip_def split: option.splits dest: in_set_dropD)

lemma set_prismaCursor: "set (prismaCursor c xs) \<subseteq> set xs"
  by (auto simp: prismaCursor_def split: option.splits dest: set_dropWhileD)

lemma set_prismaWindow: "set (prismaWindow c k n xs) \<subseteq> set xs"
proof -
  have "set (take m (prismaSkip k (prismaCursor c ys))) \<subseteq> set ys" for m ys
    using set_prismaSkip [of k "prismaCursor c ys"] set_prismaCursor [of c ys]
      set_take_subset [of m "prismaSkip k (prismaCursor c ys)"] by blast
  from this [of _ xs] this [of _ "rev xs"] show ?thesis
    by (simp add: prismaWindow_def)
qed

lemma set_prismaTake: "set (prismaTake n xs) \<subseteq> set xs"
  using set_take_subset [of "nat n" xs] set_take_subset [of "nat (- n)" "rev xs"]
  by (simp add: prismaTake_def)

lemma length_prismaWindow: "0 \<le> n \<Longrightarrow> length (prismaWindow c k n xs) \<le> nat n"
  by (simp add: prismaWindow_def)

lemma length_prismaTake: "0 \<le> n \<Longrightarrow> length (prismaTake n xs) \<le> nat n"
  by (simp add: prismaTake_def)

lemma set_applyOrder: "set (applyOrder ob xs) = set xs"
  by (cases ob) (simp_all add: orderWith_def orderAsc_def set_orderDesc split: sortOrder.splits)

lemma set_applyOrderBy: "set (applyOrderBy obs xs) = set xs"
  by (induction obs) (simp_all add: applyOrderBy_def set_applyOrder)

lemma fp_row_constructInclude: "fp_row (constructInclude s r p) = p"
  by (simp add: constructInclude_def constructIncludeInner_def)

lemma length_map_filter_all:
  "\<forall>x \<in> set xs. f x \<noteq> None \<Longrightarrow> length (List.map_filter f xs) = length xs"
  by (induction xs) (auto simp: map_filter_simps split: option.splits)

section \<open>Page sizes\<close>

lemma pageTake_absent: "pageTake None = 30"
  by (simp add: pageTake_def)

lemma pageTake_zero: "pageTake (Some 0) = 30"
  by (simp add: pageTake_def)

lemma pageTake_pos: "0 < L \<Longrightarrow> pageTake (Some L) = min L 30"
  by (simp add: pageTake_def)

lemma length_fetchPosts: "length (fetchPosts s opts) = length (fetchPostsPage s opts)"
  by (simp add: fetchPosts_def)

lemma length_fetchPostsPage:
  "0 \<le> pageTake (fpo_limit opts) \<Longrightarrow>
     length (fetchPostsPage s opts) \<le> nat (pageTake (fpo_limit opts))"
  by (simp add: fetchPostsPage_def length_prismaWindow)

lemma length_getFeed:
  "0 \<le> pageTake (gfo_limit opts) \<Longrightarrow>
     length (getFeed s opts) \<le> nat (pageTake (gfo_limit opts))"
  by (simp add: getFeed_def getFeedPage_def length_prismaTake)

lemma fetchLikedPostsLikes_where:
  "l \<in> set (fetchLikedPostsLikes s lo) \<Longrightarrow> fetchLikedPostsWhere s lo l"
  using set_prismaTake [of 50]
  by (fastforce simp: fetchLikedPostsLikes_def set_orderDesc)

lemma fetchLikedPostsLikes_has_post:
  "l \<in> set (fetchLikedPostsLikes s lo) \<Longrightarrow> likedPostOf s l \<noteq> None"
  by (auto dest!: fetchLikedPostsLikes_where simp: fetchLikedPostsWhere_def
      split: option.splits)

lemma length_fetchLikedPosts_likes:
  "length (fetchLikedPosts s lo) = length (fetchLikedPostsLikes s lo)"
  unfolding fetchLikedPosts_def length_rev
  by (rule length_map_filter_all) (simp add: fetchLikedPostsLikes_has_post)

lemma length_fetchLikedPosts_eq:
  "length (fetchLikedPosts s lo)
     = min 50 (length (filter (fetchLikedPostsWhere s lo) (postLikes s)))"
  unfolding length_fetchLikedPosts_likes fetchLikedPostsLikes_def prismaTake_def
  by (simp add: length_orderDesc min.commute)

lemma manyLikesDb_selection:
  "length (filter (fetchLikedPostsWhere manyLikesDb
       \<lparr> flo_userId = ''fan'', flo_requesterUserId = ''bob'', flo_bypassBlocked = False \<rparr>)
     (postLikes manyLikesDb)) = 31"
  by code_simp

text \<open>
  C2, as stated, fails: \<^verbatim>\<open>fetchLikedPosts\<close> takes no limit and asks the store for 50
  likes, so a user with 31 liked posts gets a page of 31 posts, above the ceiling of 30.
\<close>

theorem fetchLikedPosts_exceeds_30:
  "length (fetchLikedPosts manyLikesDb
       \<lparr> flo_userId = ''fan'', flo_requesterUserId = ''bob'', flo_bypassBlocked = False \<rparr>)
     = 31"
  by (simp add: length_fetchLikedPosts_eq manyLikesDb_selection)

text \<open>
  C2, amended: \<^verbatim>\<open>fetchPosts\<close> and \<^verbatim>\<open>getFeed\<close> return at most \<open>min L 30\<close> posts for a
  limit \<open>L > 0\<close>, and at most 30 posts when the limit is 0 or absent;
  \<^verbatim>\<open>fetchLikedPosts\<close> returns at most 50 posts.
\<close>

theorem page_size_ceiling:
  "(0 < L \<longrightarrow>
      int (length (fetchPosts s (opts\<lparr>fpo_limit := Some L\<rparr>))) \<le> min L 30
      \<and> int (length (getFeed s (fopts\<lparr>gfo_limit := Some L\<rparr>))) \<le> min L 30)
   \<and> length (fetchPosts s (opts\<lparr>fpo_limit := Some 0\<rparr>)) \<le> 30
   \<and> length (fetchPosts s (opts\<lparr>fpo_limit := None\<rparr>)) \<le> 30
   \<and> length (getFeed s (fopts\<lparr>gfo_limit := Some 0\<rparr>)) \<le> 30
   \<and> length (getFeed s (fopts\<lparr>gfo_limit := None\<rparr>)) \<le> 30
   \<and> length (fetchLikedPosts s lo) \<le> 50"
proof -
  have pos: "int (length (fetchPosts s (opts\<lparr>fpo_limit := Some L\<rparr>))) \<le> min L 30"
    and posf: "int (length (getFeed s (fopts\<lparr>gfo_limit := Some L\<rparr>))) \<le> min L 30"
    if "0 < L"
    using that length_fetchPostsPage [of "opts\<lparr>fpo_limit := Some L\<rparr>" s]
      length_getFeed [of "fopts\<lparr>gfo_limit := Some L\<rparr>" s]
    by (auto simp add: length_fetchPosts pageTake_pos)
  have z: "length (fetchPosts s (opts\<lparr>fpo_limit := l\<rparr>)) \<le> 30"
    and zf: "length (getFeed s (fopts\<lparr>gfo_limit := l\<rparr>)) \<le> 30"
    if "pageTake l = 30" for l
    using that length_fetchPostsPage [of "opts\<lparr>fpo_limit := l\<rparr>" s]
      length_getFeed [of "fopts\<lparr>gfo_limit := l\<rparr>" s]
    by (simp_all add: length_fetchPosts)
  have "length (fetchLikedPosts s lo) \<le> 50"
    by (simp add: length_fetchLikedPosts_eq)
  then show ?thesis
    using pos posf z [OF pageTake_zero] z [OF pageTake_absent] zf [OF pageTake_zero]
      zf [OF pageTake_absent]
    by blast
qed

theorem page_size_ceiling_witness:
  "(0::int) < 2
   \<and> int (length (fetchPosts feedDb ((fetchPostsDefaults ''bob'')\<lparr>fpo_limit := Some 2\<rparr>)))
       \<le> min 2 30
   \<and> int (length (getFeed feedDb ((getFeedDefaults ''ann'')\<lparr>gfo_limit := Some 2\<rparr>)))
       \<le> min 2 30"
  using page_size_ceiling [of 2 feedDb "fetchPostsDefaults ''bob''" "getFeedDefaults ''ann''"]
  by simp

section \<open>Block filtering of pages\<close>

lemma fetchPostsPage_matches:
  assumes "p \<in> set (fetchPostsPage s opts)"
  shows "postMatches s (fetchPostsWhere opts) p"
proof -
  have "p \<in> set (filter (postMatches s (fetchPostsWhere opts)) (posts s))"
    using assms set_prismaWindow
    by (fastforce simp: fetchPostsPage_def set_applyOrderBy split: option.splits)
  then show ?thesis by simp
qed

lemma where_createdBy_fetchPosts:
  "\<not> fpo_bypassBlocked opts \<Longrightarrow>
     where_createdBy (fetchPostsWhere opts) = Some (\<lambda>s author.
        (if fpo_hideIfBlockedByMe opts
         then \<not> blockedByRequester s author (fpo_requesterUserId opts) else True)
        \<and> \<not> authorHasBlocked s author (fpo_requesterUserId opts))"
  by (simp add: fetchPostsWhere_def Let_def)

lemma where_deleted_fetchPosts:
  "where_deleted (fetchPostsWhere opts) = Some (\<lambda>d. d = None)"
  by (simp add: fetchPostsWhere_def Let_def)

lemma fetchPosts_rows:
  "fp \<in> set (fetchPosts s opts) \<Longrightarrow> fp_row fp \<in> set (fetchPostsPage s opts)"
  by (auto simp: fetchPosts_def fp_row_constructInclude)

lemma fetchLikedPosts_rows:
  assumes "fp \<in> set (fetchLikedPosts s lo)"
  shows "\<exists>l \<in> set (fetchLikedPostsLikes s lo). likedPostOf s l = Some (fp_row fp)"
  using assms
  by (auto simp: fetchLikedPosts_def map_filter_def fp_row_constructInclude)

text \<open>
  C3, as stated, fails: with the default options \<^verbatim>\<open>fetchPosts\<close> filters on the author
  having blocked the requester only. The requester \<open>bob\<close> has blocked the author \<open>ann\<close>,
  and the page still has her post \<open>p1\<close>.
\<close>

theorem fetchPosts_shows_author_blocked_by_viewer:
  "blockedByRequester blockDb ''ann'' ''bob''
   \<and> map (\<lambda>fp. (post_id (fp_row fp), post_createdById (fp_row fp)))
         (fetchPosts blockDb (fetchPostsDefaults ''bob''))
       = [(''p1'', ''ann''), (''p3'', ''joe'')]"
  by code_simp

text \<open>
  C3, amended: without \<^verbatim>\<open>bypassBlocked\<close>, no post of \<^verbatim>\<open>fetchPosts\<close> or of
  \<^verbatim>\<open>fetchLikedPosts\<close> is by an author who has blocked the requester; a post by an
  author whom the requester has blocked is excluded by \<^verbatim>\<open>fetchPosts\<close> when
  \<^verbatim>\<open>hideIfBlockedByMe\<close> is set.
\<close>

theorem block_filtering:
  "(\<not> fpo_bypassBlocked opts \<and> fp \<in> set (fetchPosts s opts) \<longrightarrow>
       \<not> authorHasBlocked s (post_createdById (fp_row fp)) (fpo_requesterUserId opts)
       \<and> (fpo_hideIfBlockedByMe opts \<longrightarrow>
            \<not> blockedByRequester s (post_createdById (fp_row fp)) (fpo_requesterUserId opts)))
   \<and> (\<not> flo_bypassBlocked lo \<and> fl \<in> set (fetchLikedPosts s lo) \<longrightarrow>
       \<not> authorHasBlocked s (post_createdById (fp_row fl)) (flo_requesterUserId lo))"
proof (intro conjI impI)
  assume a: "\<not> fpo_bypassBlocked opts \<and> fp \<in> set (fetchPosts s opts)"
  then have m: "postMatches s (fetchPostsWhere opts) (fp_row fp)"
    by (simp add: fetchPosts_rows fetchPostsPage_matches)
  from a m show "\<not> authorHasBlocked s (post_createdById (fp_row fp)) (fpo_requesterUserId opts)"
    by (simp add: postMatches_def where_createdBy_fetchPosts holds_def)
  assume "fpo_hideIfBlockedByMe opts"
  with a m show "\<not> blockedByRequester s (post_createdById (fp_row fp)) (fpo_requesterUserId opts)"
    by (simp add: postMatches_def where_createdBy_fetchPosts holds_def)
next
  assume a: "\<not> flo_bypassBlocked lo \<and> fl \<in> set (fetchLikedPosts s lo)"
  then obtain l where l: "l \<in> set (fetchLikedPostsLikes s lo)" "likedPostOf s l = Some (fp_row fl)"
    using fetchLikedPosts_rows by blast
  from l(1) have "fetchLikedPostsWhere s lo l"
    by (rule fetchLikedPostsLikes_where)
  with a l(2) show "\<not> authorHasBlocked s (post_createdById (fp_row fl)) (flo_requesterUserId lo)"
    by (simp add: fetchLikedPostsWhere_def)
qed

theorem block_filtering_witness:
  "constructInclude blockDb ''bob'' (mkPost ''p3'' ''joe'' 3)
     \<in> set (fetchPosts blockDb ((fetchPostsDefaults ''bob'')\<lparr>fpo_hideIfBlockedByMe := True\<rparr>))
   \<and> \<not> authorHasBlocked blockDb ''joe'' ''bob'' \<and> \<not> blockedByRequester blockDb ''joe'' ''bob''
   \<and> constructInclude blockDb ''bob'' (mkPost ''p1'' ''ann'' 1)
     \<in> set (fetchLikedPosts blockDb
          \<lparr> flo_userId = ''bob'', flo_requesterUserId = ''bob'', flo_bypassBlocked = False \<rparr>)
   \<and> \<not> authorHasBlocked blockDb ''ann'' ''bob''"
proof -
  have m1: "constructInclude blockDb ''bob'' (mkPost ''p3'' ''joe'' 3)
     \<in> set (fetchPosts blockDb ((fetchPostsDefaults ''bob'')\<lparr>fpo_hideIfBlockedByMe := True\<rparr>))"
    by code_simp
  have m2: "constructInclude blockDb ''bob'' (mkPost ''p1'' ''ann'' 1)
     \<in> set (fetchLikedPosts blockDb
          \<lparr> flo_userId = ''bob'', flo_requesterUserId = ''bob'', flo_bypassBlocked = False \<rparr>)"
    by code_simp
  show ?thesis
    using m1 m2
      block_filtering [of "(fetchPostsDefaults ''bob'')\<lparr>fpo_hideIfBlockedByMe := True\<rparr>"
        "constructInclude blockDb ''bob'' (mkPost ''p3'' ''joe'' 3)" blockDb
        "\<lparr> flo_userId = ''bob'', flo_requesterUserId = ''bob'', flo_bypassBlocked = False \<rparr>"
        "constructInclude blockDb ''bob'' (mkPost ''p1'' ''ann'' 1)"]
    by (simp add: fp_row_constructInclude mkPost_def fetchPostsDefaults_def)
qed

section \<open>Page order\<close>

lemma desc_orderDesc: "sorted_wrt (\<lambda>a b. f b \<le> f a) (orderDesc f xs)"
proof -
  have "sorted (map f (sort_key f (rev xs)))" by simp
  then have "sorted_wrt (\<lambda>a b. f a \<le> f b) (sort_key f (rev xs))"
    by (simp only: sorted_map)
  then show ?thesis
    by (simp add: orderDesc_def sorted_wrt_rev)
qed

lemma desc_prismaSkip:
  "sorted_wrt R xs \<Longrightarrow> sorted_wrt R (prismaSkip k xs)"
  by (simp add: prismaSkip_def sorted_wrt_drop split: option.splits)

lemma desc_prismaCursor:
  "sorted_wrt R xs \<Longrightarrow> sorted_wrt R (prismaCursor c xs)"
  by (simp add: prismaCursor_def dropWhile_eq_drop sorted_wrt_drop split: option.splits)

lemma desc_prismaWindow:
  assumes "sorted_wrt (\<lambda>a b. f b \<le> f a) xs"
  shows "sorted_wrt (\<lambda>a b. f b \<le> f a) (prismaWindow c k n xs)"
proof (cases "0 \<le> n")
  case True
  with assms show ?thesis
    by (simp add: prismaWindow_def sorted_wrt_take desc_prismaSkip desc_prismaCursor)
next
  case False
  from assms have "sorted_wrt (\<lambda>a b. f a \<le> f b) (rev xs)"
    by (simp add: sorted_wrt_rev)
  then have "sorted_wrt (\<lambda>a b. f a \<le> f b)
      (take (nat (- n)) (prismaSkip k (prismaCursor c (rev xs))))"
    by (intro sorted_wrt_take desc_prismaSkip desc_prismaCursor)
  with False show ?thesis
    by (simp add: prismaWindow_def sorted_wrt_rev)
qed

lemma desc_prismaTake:
  assumes "sorted_wrt (\<lambda>a b. f b \<le> f a) xs"
  shows "sorted_wrt (\<lambda>a b. f b \<le> f a) (prismaTake n xs)"
proof (cases "0 \<le> n")
  case True
  with assms show ?thesis
    by (simp add: prismaTake_def sorted_wrt_take)
next
  case False
  from assms have "sorted_wrt (\<lambda>a b. f a \<le> f b) (take (nat (- n)) (rev xs))"
    by (intro sorted_wrt_take) (simp add: sorted_wrt_rev)
  with False show ?thesis
    by (simp add: prismaTake_def sorted_wrt_rev)
qed

lemma desc_iff: "sorted (rev (map f xs)) \<longleftrightarrow> sorted_wrt (\<lambda>a b. f b \<le> f a) xs"
  by (simp add: sorted_wrt_rev sorted_wrt_map flip: rev_map)

lemma fetchPostsPage_desc:
  "fpo_orderBy opts = None \<Longrightarrow>
     sorted_wrt (\<lambda>a b. post_createdAt b \<le> post_createdAt a) (fetchPostsPage s opts)"
  by (simp add: fetchPostsPage_def applyOrderBy_def orderWith_def desc_prismaWindow
      desc_orderDesc)

lemma map_fp_row_constructInclude: "map (f \<circ> fp_row) (map (constructInclude s r) ps) = map f ps"
  by (simp add: fp_row_constructInclude)

lemma likedPostOf_id: "likedPostOf s l = Some p \<Longrightarrow> post_id p = like_postId l"
  by (auto simp: likedPostOf_def find_Some_iff)

lemma liked_post_ids:
  "\<forall>l \<in> set ls. likedPostOf s l \<noteq> None \<Longrightarrow>
     map (post_id \<circ> fp_row)
       (List.map_filter (\<lambda>l. map_option (constructInclude s r) (likedPostOf s l)) ls)
     = map like_postId ls"
  by (induction ls)
    (auto simp: map_filter_simps fp_row_constructInclude likedPostOf_id split: option.splits)

text \<open>
  C8, as stated, fails: \<^verbatim>\<open>getFeed\<close> returns its page as selected, newest first; it
  does not reverse it.
\<close>

theorem getFeed_newest_first:
  "map (post_createdAt \<circ> fp_row) (getFeed feedDb (getFeedDefaults ''ann'')) = [3, 2, 1]"
  by code_simp

text \<open>
  C8, amended: \<^verbatim>\<open>fetchPosts\<close> with no \<^verbatim>\<open>orderBy\<close> selects its page newest first and
  returns it reversed, oldest first; \<^verbatim>\<open>fetchLikedPosts\<close> selects the likes latest
  like first and returns their posts in the reverse of that order; \<^verbatim>\<open>getFeed\<close> selects
  its page newest first and returns it in that order.
\<close>

theorem page_order:
  "(fpo_orderBy opts = None \<longrightarrow>
      sorted (rev (map post_createdAt (fetchPostsPage s opts)))
      \<and> map fp_row (fetchPosts s opts) = rev (fetchPostsPage s opts)
      \<and> sorted (map (post_createdAt \<circ> fp_row) (fetchPosts s opts)))
   \<and> sorted (rev (map like_createdAt (fetchLikedPostsLikes s lo)))
   \<and> map (post_id \<circ> fp_row) (fetchLikedPosts s lo)
       = rev (map like_postId (fetchLikedPostsLikes s lo))
   \<and> map fp_row (getFeed s fo) = getFeedPage s fo
   \<and> sorted (rev (map (post_createdAt \<circ> fp_row) (getFeed s fo)))"
proof -
  have rows: "map fp_row (fetchPosts s opts) = rev (fetchPostsPage s opts)"
    by (simp add: fetchPosts_def rev_map fp_row_constructInclude comp_def)
  have p1: "sorted (rev (map post_createdAt (fetchPostsPage s opts)))"
    and p2: "sorted (map (post_createdAt \<circ> fp_row) (fetchPosts s opts))"
    if "fpo_orderBy opts = None"
  proof -
    show "sorted (rev (map post_createdAt (fetchPostsPage s opts)))"
      using fetchPostsPage_desc [OF that] by (simp only: desc_iff)
    then show "sorted (map (post_createdAt \<circ> fp_row) (fetchPosts s opts))"
      using rows by (simp add: rev_map flip: map_map)
  qed
  have l1: "sorted (rev (map like_createdAt (fetchLikedPostsLikes s lo)))"
    unfolding desc_iff fetchLikedPostsLikes_def
    by (intro desc_prismaTake desc_orderDesc)
  have l2: "map (post_id \<circ> fp_row) (fetchLikedPosts s lo)
       = rev (map like_postId (fetchLikedPostsLikes s lo))"
    unfolding fetchLikedPosts_def rev_map [symmetric]
    by (subst liked_post_ids) (simp_all add: fetchLikedPostsLikes_has_post)
  have f0: "map fp_row (getFeed s fo) = getFeedPage s fo"
    by (simp add: getFeed_def fp_row_constructInclude comp_def)
  have "sorted_wrt (\<lambda>a b. post_createdAt b \<le> post_createdAt a) (getFeedPage s fo)"
    unfolding getFeedPage_def by (intro desc_prismaTake desc_orderDesc)
  then have f1: "sorted (rev (map (post_createdAt \<circ> fp_row) (getFeed s fo)))"
    using f0 by (simp add: desc_iff flip: map_map)
  from rows p1 p2 l1 l2 f0 f1 show ?thesis by blast
qed


theorem page_order_witness:
  "fpo_orderBy (fetchPostsDefaults ''bob'') = None
   \<and> sorted (rev (map post_createdAt (fetchPostsPage feedDb (fetchPostsDefaults ''bob''))))
   \<and> sorted (map (post_createdAt \<circ> fp_row) (fetchPosts feedDb (fetchPostsDefaults ''bob'')))"
  using page_order [of "fetchPostsDefaults ''bob''" feedDb]
  by (simp add: fetchPostsDefaults_def)

section \<open>Voting on a poll\<close>

lemma votePostPoll_not_ok:
  "fst (votePostPoll U n r pid plid c s) \<noteq> Ok True \<Longrightarrow> snd (votePostPoll U n r pid plid c s) = s"
  by (simp add: votePostPoll_def split: option.splits if_splits)

lemma votePostPoll_ok:
  assumes "fst (votePostPoll U n r pid plid c s) = Ok True"
  shows "snd (votePostPoll U n r pid plid c s)
     = s\<lparr>postPollVotedUsers := postPollVotedUsers s @
           [\<lparr> vote_id = n, vote_userId = r, vote_pollId = plid, vote_pollChoiceId = c \<rparr>]\<rparr>"
    and "find (\<lambda>pl. poll_postId pl = pid \<and> poll_id pl = plid) (postPolls s) \<noteq> None"
    and "\<exists>p. find (\<lambda>p. post_id p = pid) (posts s) = Some p
           \<and> getBlockedUserIds U (friends s) [post_createdById p] r = []"
proof -
  from assms obtain pl where pl:
    "find (\<lambda>pl. poll_postId pl = pid \<and> poll_id pl = plid) (postPolls s) = Some pl"
    by (cases "find (\<lambda>pl. poll_postId pl = pid \<and> poll_id pl = plid) (postPolls s)")
      (simp_all add: votePostPoll_def)
  then have plp: "poll_postId pl = pid" by (auto simp: find_Some_iff)
  from assms pl plp obtain p where p: "find (\<lambda>p. post_id p = pid) (posts s) = Some p"
    by (cases "find (\<lambda>p. post_id p = pid) (posts s)") (simp_all add: votePostPoll_def)
  from assms show "snd (votePostPoll U n r pid plid c s)
     = s\<lparr>postPollVotedUsers := postPollVotedUsers s @
           [\<lparr> vote_id = n, vote_userId = r, vote_pollId = plid, vote_pollChoiceId = c \<rparr>]\<rparr>"
    by (simp add: votePostPoll_def pl plp p split: if_splits)
  from pl show "find (\<lambda>pl. poll_postId pl = pid \<and> poll_id pl = plid) (postPolls s) \<noteq> None"
    by simp
  from assms have "getBlockedUserIds U (friends s) [post_createdById p] r = []"
    by (simp add: votePostPoll_def pl plp p split: if_splits)
  with p show "\<exists>p. find (\<lambda>p. post_id p = pid) (posts s) = Some p
           \<and> getBlockedUserIds U (friends s) [post_createdById p] r = []"
    by blast
qed

text \<open>
  C5, amended: \<^verbatim>\<open>votePostPoll\<close> returns an error and leaves the store as it is when
  the poll is not a poll of the post, when the gate reports the requester blocked by the
  author, when the choice is not one of the poll, and when the requester has a vote row
  for the poll; otherwise it returns true and the new vote row is the only change. A
  call that does not return true changes nothing. After a vote that returned true, every
  further vote of the same requester on the same poll is an error and changes nothing:
  \<^verbatim>\<open>Already voted.\<close> when the choice is one of the poll, \<^verbatim>\<open>Poll not found.\<close> when it
  is not.
\<close>

theorem votePostPoll_preconditions:
  "(find (\<lambda>pl. poll_postId pl = pid \<and> poll_id pl = plid) (postPolls s) = None \<longrightarrow>
      votePostPoll U n r pid plid c s = (Err ''Poll not found.'', s))
   \<and> (find (\<lambda>pl. poll_postId pl = pid \<and> poll_id pl = plid) (postPolls s) \<noteq> None
       \<and> find (\<lambda>p. post_id p = pid) (posts s) = Some p \<longrightarrow>
        (getBlockedUserIds U (friends s) [post_createdById p] r \<noteq> [] \<longrightarrow>
           votePostPoll U n r pid plid c s = (Err ''You have been blocked by this user!'', s))
      \<and> (getBlockedUserIds U (friends s) [post_createdById p] r = [] \<longrightarrow>
           (find (\<lambda>ch. choice_pollId ch = plid \<and> choice_id ch = c) (postPollChoices s) = None
              \<longrightarrow> votePostPoll U n r pid plid c s = (Err ''Poll not found.'', s))
         \<and> (find (\<lambda>ch. choice_pollId ch = plid \<and> choice_id ch = c) (postPollChoices s) \<noteq> None
              \<longrightarrow>
              (find (\<lambda>v. vote_userId v = r \<and> vote_pollId v = plid) (postPollVotedUsers s) \<noteq> None
                 \<longrightarrow> votePostPoll U n r pid plid c s = (Err ''Already voted.'', s))
            \<and> (find (\<lambda>v. vote_userId v = r \<and> vote_pollId v = plid) (postPollVotedUsers s) = None
                 \<longrightarrow> votePostPoll U n r pid plid c s =
                       (Ok True, s\<lparr>postPollVotedUsers := postPollVotedUsers s @
                          [\<lparr> vote_id = n, vote_userId = r, vote_pollId = plid,
                             vote_pollChoiceId = c \<rparr>]\<rparr>)))))
   \<and> (fst (votePostPoll U n r pid plid c s) \<noteq> Ok True \<longrightarrow>
        snd (votePostPoll U n r pid plid c s) = s)
   \<and> (fst (votePostPoll U n r pid plid c s) = Ok True \<longrightarrow>
        votePostPoll U n' r pid plid c' (snd (votePostPoll U n r pid plid c s))
          = (Err (if find (\<lambda>ch. choice_pollId ch = plid \<and> choice_id ch = c') (postPollChoices s)
                      = None
                  then ''Poll not found.'' else ''Already voted.''),
             snd (votePostPoll U n r pid plid c s)))"
proof -
  let ?poll = "find (\<lambda>pl. poll_postId pl = pid \<and> poll_id pl = plid) (postPolls s)"
  let ?choice = "\<lambda>c. find (\<lambda>ch. choice_pollId ch = plid \<and> choice_id ch = c) (postPollChoices s)"
  let ?voted = "find (\<lambda>v. vote_userId v = r \<and> vote_pollId v = plid) (postPollVotedUsers s)"
  have none: "votePostPoll U n r pid plid c s = (Err ''Poll not found.'', s)" if "?poll = None"
    using that by (simp add: votePostPoll_def)
  have some: "votePostPoll U n r pid plid c s =
      (if getBlockedUserIds U (friends s) [post_createdById p] r \<noteq> []
       then (Err ''You have been blocked by this user!'', s)
       else if ?choice c = None then (Err ''Poll not found.'', s)
       else if ?voted \<noteq> None then (Err ''Already voted.'', s)
       else (Ok True, s\<lparr>postPollVotedUsers := postPollVotedUsers s @
                          [\<lparr> vote_id = n, vote_userId = r, vote_pollId = plid,
                             vote_pollChoiceId = c \<rparr>]\<rparr>))"
    if a: "?poll \<noteq> None \<and> find (\<lambda>p. post_id p = pid) (posts s) = Some p"
  proof -
    from a obtain pl where pl: "?poll = Some pl" by blast
    then have "poll_postId pl = pid" by (auto simp: find_Some_iff)
    with a pl show ?thesis by (simp add: votePostPoll_def)
  qed
  have again: "votePostPoll U n' r pid plid c' (snd (votePostPoll U n r pid plid c s))
          = (Err (if ?choice c' = None then ''Poll not found.'' else ''Already voted.''),
             snd (votePostPoll U n r pid plid c s))"
    if ok: "fst (votePostPoll U n r pid plid c s) = Ok True"
  proof -
    note f = votePostPoll_ok [OF ok]
    from f(3) obtain q where q: "find (\<lambda>p. post_id p = pid) (posts s) = Some q"
      "getBlockedUserIds U (friends s) [post_createdById q] r = []" by blast
    from f(2) obtain pl where pl: "?poll = Some pl" by blast
    then have plp: "poll_postId pl = pid" by (auto simp: find_Some_iff)
    let ?s1 = "s\<lparr>postPollVotedUsers := postPollVotedUsers s @
           [\<lparr> vote_id = n, vote_userId = r, vote_pollId = plid, vote_pollChoiceId = c \<rparr>]\<rparr>"
    have v: "find (\<lambda>v. vote_userId v = r \<and> vote_pollId v = plid) (postPollVotedUsers ?s1) \<noteq> None"
      by (simp add: find_None_iff)
        (rule exI [of _ "\<lparr> vote_id = n, vote_userId = r, vote_pollId = plid,
           vote_pollChoiceId = c \<rparr>"], simp)
    have "votePostPoll U n' r pid plid c' ?s1
        = (Err (if ?choice c' = None then ''Poll not found.'' else ''Already voted.''), ?s1)"
      using v by (simp add: votePostPoll_def pl plp q del: find_None_iff)
    then show ?thesis by (simp only: f(1))
  qed
  show ?thesis
  proof (intro conjI impI)
    assume a: "?poll \<noteq> None \<and> find (\<lambda>p. post_id p = pid) (posts s) = Some p"
    note eq = some [OF a]
    show "votePostPoll U n r pid plid c s = (Err ''You have been blocked by this user!'', s)"
      if "getBlockedUserIds U (friends s) [post_createdById p] r \<noteq> []"
      using that by (simp add: eq)
    assume nb: "getBlockedUserIds U (friends s) [post_createdById p] r = []"
    show "votePostPoll U n r pid plid c s = (Err ''Poll not found.'', s)" if "?choice c = None"
      using that nb by (simp add: eq)
    assume ch: "?choice c \<noteq> None"
    show "votePostPoll U n r pid plid c s = (Err ''Already voted.'', s)" if "?voted \<noteq> None"
      using that nb ch by (simp add: eq)
    show "votePostPoll U n r pid plid c s =
        (Ok True, s\<lparr>postPollVotedUsers := postPollVotedUsers s @
           [\<lparr> vote_id = n, vote_userId = r, vote_pollId = plid, vote_pollChoiceId = c \<rparr>]\<rparr>)"
      if "?voted = None"
      using that nb ch by (simp add: eq)
  qed (fact none again votePostPoll_not_ok)+
qed

text \<open>
  C5, as stated, fails in its last part: the choice is looked up before the vote row, so
  a second vote of the same requester on the same poll for a choice that the poll does
  not have returns \<^verbatim>\<open>Poll not found.\<close>, not \<^verbatim>\<open>Already voted.\<close>
\<close>

theorem second_vote_not_already_voted:
  "fst (votePostPoll specUserService ''v1'' ''bob'' ''p1'' ''poll1'' ''c1'' pollDb) = Ok True
   \<and> fst (votePostPoll specUserService ''v2'' ''bob'' ''p1'' ''poll1'' ''c9''
        (snd (votePostPoll specUserService ''v1'' ''bob'' ''p1'' ''poll1'' ''c1'' pollDb)))
       = Err ''Poll not found.''"
  by (simp add: votePostPoll_def pollDb_def emptyDb_def mkPost_def specUserService_def)

theorem votePostPoll_preconditions_witness:
  "fst (votePostPoll specUserService ''v1'' ''bob'' ''p1'' ''poll1'' ''c1'' pollDb) = Ok True
   \<and> votePostPoll specUserService ''v2'' ''bob'' ''p1'' ''poll1'' ''c2''
        (snd (votePostPoll specUserService ''v1'' ''bob'' ''p1'' ''poll1'' ''c1'' pollDb))
       = (Err ''Already voted.'',
          snd (votePostPoll specUserService ''v1'' ''bob'' ''p1'' ''poll1'' ''c1'' pollDb))
   \<and> votePostPoll specUserService ''v1'' ''bob'' ''p1'' ''poll9'' ''c1'' pollDb
       = (Err ''Poll not found.'', pollDb)
   \<and> votePostPoll specUserService ''v1'' ''bob'' ''p1'' ''poll1'' ''c9'' pollDb
       = (Err ''Poll not found.'', pollDb)"
proof -
  have ok: "fst (votePostPoll specUserService ''v1'' ''bob'' ''p1'' ''poll1'' ''c1'' pollDb) = Ok True"
    by (simp add: votePostPoll_def pollDb_def emptyDb_def mkPost_def specUserService_def)
  have ch: "find (\<lambda>ch. choice_pollId ch = ''poll1'' \<and> choice_id ch = ''c2'') (postPollChoices pollDb) \<noteq> None"
    and ch9: "find (\<lambda>ch. choice_pollId ch = ''poll1'' \<and> choice_id ch = ''c9'') (postPollChoices pollDb) = None"
    and p9: "find (\<lambda>pl. poll_postId pl = ''p1'' \<and> poll_id pl = ''poll9'') (postPolls pollDb) = None"
    and p1: "find (\<lambda>pl. poll_postId pl = ''p1'' \<and> poll_id pl = ''poll1'') (postPolls pollDb) \<noteq> None"
    and po: "find (\<lambda>p. post_id p = ''p1'') (posts pollDb) = Some (mkPost ''p1'' ''ann'' 1)"
    and nb: "getBlockedUserIds specUserService (friends pollDb)
        [post_createdById (mkPost ''p1'' ''ann'' 1)] ''bob'' = []"
    by (simp_all add: pollDb_def emptyDb_def mkPost_def specUserService_def)
  show ?thesis
    using ok ch ch9 p9 p1 po nb
      votePostPoll_preconditions [of "''p1''" "''poll1''" pollDb specUserService "''v1''"
        "''bob''" "''c1''" "mkPost ''p1'' ''ann'' 1" "''v2''" "''c2''"]
      votePostPoll_preconditions [of "''p1''" "''poll9''" pollDb specUserService "''v1''"
        "''bob''" "''c1''"]
      votePostPoll_preconditions [of "''p1''" "''poll1''" pollDb specUserService "''v1''"
        "''bob''" "''c9''" "mkPost ''p1'' ''ann'' 1"]
    by simp
qed

section \<open>Notifications\<close>


lemma createPostNotification_cases:
  "createPostNotification f n opts s =
     (case resolveToId s opts of
        None \<Rightarrow> s
      | Some toId \<Rightarrow>
          if toId = cpn_byId opts
             \<or> notificationExists s (cpn_byId opts) toId (cpn_type opts) (cpn_postId opts)
             \<or> f \<or> find (\<lambda>a. account_userId a = toId) (accounts s) = None
          then s
          else s\<lparr> postNotifications := postNotifications s @ [newNotification n opts toId],
                  accounts := incrementPostNotificationCount toId (accounts s) \<rparr>)"
  by (simp add: createPostNotification_def newNotification_def split: option.splits)

lemma createPostNotification_none:
  "resolveToId s opts = None \<Longrightarrow> createPostNotification f n opts s = s"
  by (simp add: createPostNotification_cases)

lemma createPostNotification_skip:
  assumes "resolveToId s opts = Some toId"
    and "toId = cpn_byId opts
         \<or> notificationExists s (cpn_byId opts) toId (cpn_type opts) (cpn_postId opts)
         \<or> f \<or> find (\<lambda>a. account_userId a = toId) (accounts s) = None"
  shows "createPostNotification f n opts s = s"
  using assms by (simp only: createPostNotification_cases option.case if_P)

lemma createPostNotification_create:
  assumes "resolveToId s opts = Some toId"
    and "\<not> (toId = cpn_byId opts
         \<or> notificationExists s (cpn_byId opts) toId (cpn_type opts) (cpn_postId opts)
         \<or> f \<or> find (\<lambda>a. account_userId a = toId) (accounts s) = None)"
  shows "createPostNotification f n opts s
     = s\<lparr> postNotifications := postNotifications s @ [newNotification n opts toId],
          accounts := incrementPostNotificationCount toId (accounts s) \<rparr>"
  using assms by (simp only: createPostNotification_cases option.case if_not_P if_False)

lemma createPostNotification_changed:
  assumes "createPostNotification f n opts s \<noteq> s"
  obtains toId where "resolveToId s opts = Some toId"
    and "\<not> (toId = cpn_byId opts
         \<or> notificationExists s (cpn_byId opts) toId (cpn_type opts) (cpn_postId opts)
         \<or> f \<or> find (\<lambda>a. account_userId a = toId) (accounts s) = None)"
proof (cases "resolveToId s opts")
  case None
  with assms show ?thesis by (simp add: createPostNotification_none)
next
  case (Some toId)
  with assms that [of toId] createPostNotification_skip [of s opts toId f n]
  show ?thesis by blast
qed









text \<open>
  C7: for \<^verbatim>\<open>REPLIED\<close> with subject post \<open>pid\<close> the recipient is the author of the
  post that \<open>pid\<close> is a comment to, and there is none when the post or its parent is
  missing; for \<^verbatim>\<open>LIKED\<close> it is the author of the subject post; for \<^verbatim>\<open>FOLLOWED\<close> it is the
  recipient passed in. Without a recipient nothing is created, and a row that is created
  goes to the resolved recipient.
\<close>

theorem recipient_resolution:
  "(cpn_type opts = REPLIED \<and> cpn_postId opts = Some pid \<longrightarrow>
      resolveToId s opts =
        (case find (\<lambda>p. post_id p = pid) (posts s) of
           None \<Rightarrow> None
         | Some p \<Rightarrow>
             (case commentToOf s p of
                None \<Rightarrow> None
              | Some q \<Rightarrow> if post_createdById q = [] then None else Some (post_createdById q))))
   \<and> (cpn_type opts = LIKED \<and> cpn_postId opts = Some pid \<longrightarrow>
      resolveToId s opts =
        (case find (\<lambda>p. post_id p = pid) (posts s) of
           None \<Rightarrow> None
         | Some p \<Rightarrow> if post_createdById p = [] then None else Some (post_createdById p)))
   \<and> (cpn_type opts = FOLLOWED \<longrightarrow>
      resolveToId s opts = (if truthy (cpn_toId opts) then cpn_toId opts else None))
   \<and> (resolveToId s opts = None \<longrightarrow> createPostNotification f n opts s = s)
   \<and> (createPostNotification f n opts s \<noteq> s \<longrightarrow>
        (\<exists>toId. resolveToId s opts = Some toId
           \<and> postNotifications (createPostNotification f n opts s)
               = postNotifications s @
                   [\<lparr> notif_id = n, notif_byId = cpn_byId opts, notif_toId = toId,
                      notif_type = cpn_type opts, notif_postId = cpn_postId opts \<rparr>]))"
proof (intro conjI impI)
  assume "cpn_type opts = REPLIED \<and> cpn_postId opts = Some pid"
  then show "resolveToId s opts =
        (case find (\<lambda>p. post_id p = pid) (posts s) of
           None \<Rightarrow> None
         | Some p \<Rightarrow>
             (case commentToOf s p of
                None \<Rightarrow> None
              | Some q \<Rightarrow> if post_createdById q = [] then None else Some (post_createdById q)))"
    by (simp add: resolveToId_def findPostById_def truthy_def split: option.splits)
next
  assume "cpn_type opts = LIKED \<and> cpn_postId opts = Some pid"
  then show "resolveToId s opts =
        (case find (\<lambda>p. post_id p = pid) (posts s) of
           None \<Rightarrow> None
         | Some p \<Rightarrow> if post_createdById p = [] then None else Some (post_createdById p))"
    by (simp add: resolveToId_def findPostById_def truthy_def split: option.splits)
next
  assume "cpn_type opts = FOLLOWED"
  then show "resolveToId s opts = (if truthy (cpn_toId opts) then cpn_toId opts else None)"
    by (simp add: resolveToId_def)
next
  assume "resolveToId s opts = None"
  then show "createPostNotification f n opts s = s"
    by (rule createPostNotification_none)
next
  assume "createPostNotification f n opts s \<noteq> s"
  then obtain toId where t: "resolveToId s opts = Some toId"
    and c: "\<not> (toId = cpn_byId opts
         \<or> notificationExists s (cpn_byId opts) toId (cpn_type opts) (cpn_postId opts)
         \<or> f \<or> find (\<lambda>a. account_userId a = toId) (accounts s) = None)"
    by (rule createPostNotification_changed)
  show "\<exists>toId. resolveToId s opts = Some toId
           \<and> postNotifications (createPostNotification f n opts s)
               = postNotifications s @
                   [\<lparr> notif_id = n, notif_byId = cpn_byId opts, notif_toId = toId,
                      notif_type = cpn_type opts, notif_postId = cpn_postId opts \<rparr>]"
    unfolding createPostNotification_create [OF t c]
    using t by (simp add: newNotification_def)
qed

theorem recipient_resolution_witness:
  "resolveToId notifyDb
      \<lparr> cpn_toId = None, cpn_byId = ''bob'', cpn_postId = Some ''p2'', cpn_type = REPLIED \<rparr>
     = Some ''ann''
   \<and> postNotifications (createPostNotification False ''n1''
        \<lparr> cpn_toId = None, cpn_byId = ''bob'', cpn_postId = Some ''p2'', cpn_type = REPLIED \<rparr>
        notifyDb)
       = [\<lparr> notif_id = ''n1'', notif_byId = ''bob'', notif_toId = ''ann'',
            notif_type = REPLIED, notif_postId = Some ''p2'' \<rparr>]
   \<and> resolveToId notifyDb
      \<lparr> cpn_toId = None, cpn_byId = ''joe'', cpn_postId = Some ''p2'', cpn_type = LIKED \<rparr>
     = Some ''bob''
   \<and> resolveToId notifyDb
      \<lparr> cpn_toId = Some ''joe'', cpn_byId = ''bob'', cpn_postId = None, cpn_type = FOLLOWED \<rparr>
     = Some ''joe''
   \<and> createPostNotification False ''n1''
      \<lparr> cpn_toId = None, cpn_byId = ''bob'', cpn_postId = Some ''p1'', cpn_type = REPLIED \<rparr>
      notifyDb = notifyDb"
proof -
  let ?reply = "\<lparr> cpn_toId = None, cpn_byId = ''bob'', cpn_postId = Some ''p2'', cpn_type = REPLIED \<rparr>"
  let ?like = "\<lparr> cpn_toId = None, cpn_byId = ''joe'', cpn_postId = Some ''p2'', cpn_type = LIKED \<rparr>"
  let ?follow = "\<lparr> cpn_toId = Some ''joe'', cpn_byId = ''bob'', cpn_postId = None, cpn_type = FOLLOWED \<rparr>"
  let ?top = "\<lparr> cpn_toId = None, cpn_byId = ''bob'', cpn_postId = Some ''p1'', cpn_type = REPLIED \<rparr>"
  have p2: "find (\<lambda>p. post_id p = ''p2'') (posts notifyDb)
      = Some ((mkPost ''p2'' ''bob'' 2)\<lparr>post_commentToId := Some ''p1''\<rparr>)"
    and p1: "find (\<lambda>p. post_id p = ''p1'') (posts notifyDb) = Some (mkPost ''p1'' ''ann'' 1)"
    by (simp_all add: notifyDb_def emptyDb_def mkPost_def)
  have q2: "commentToOf notifyDb ((mkPost ''p2'' ''bob'' 2)\<lparr>post_commentToId := Some ''p1''\<rparr>)
      = Some (mkPost ''p1'' ''ann'' 1)"
    and q1: "commentToOf notifyDb (mkPost ''p1'' ''ann'' 1) = None"
    by (simp_all add: commentToOf_def notifyDb_def emptyDb_def mkPost_def)
  have a: "resolveToId notifyDb ?reply = Some ''ann''"
    using recipient_resolution [of ?reply "''p2''" notifyDb] p2 q2 by (simp add: mkPost_def)
  have b: "resolveToId notifyDb ?like = Some ''bob''"
    using recipient_resolution [of ?like "''p2''" notifyDb] p2 by (simp add: mkPost_def)
  have c: "resolveToId notifyDb ?follow = Some ''joe''"
    using recipient_resolution [of ?follow _ notifyDb] by (simp add: truthy_def)
  have "resolveToId notifyDb ?top = None"
    using recipient_resolution [of ?top "''p1''" notifyDb] p1 q1 by simp
  then have d: "createPostNotification False ''n1'' ?top notifyDb = notifyDb"
    using recipient_resolution [of ?top _ notifyDb False "''n1''"] by simp
  have n0: "postNotifications notifyDb = []"
    by (simp add: notifyDb_def emptyDb_def)
  have "length (postNotifications (createPostNotification False ''n1'' ?reply notifyDb)) = 1"
    by (simp add: createPostNotification_def resolveToId_def findPostById_def commentToOf_def
        truthy_def notificationExists_def notifyDb_def emptyDb_def mkPost_def mkAccount_def)
  with n0 have ch: "createPostNotification False ''n1'' ?reply notifyDb \<noteq> notifyDb"
    by auto
  from recipient_resolution [of ?reply "''p2''" notifyDb False "''n1''"] ch
  obtain toId where t: "resolveToId notifyDb ?reply = Some toId"
    and rows: "postNotifications (createPostNotification False ''n1'' ?reply notifyDb)
       = postNotifications notifyDb @
           [\<lparr> notif_id = ''n1'', notif_byId = cpn_byId ?reply, notif_toId = toId,
              notif_type = cpn_type ?reply, notif_postId = cpn_postId ?reply \<rparr>]"
    by blast
  from t a have "toId = ''ann''" by simp
  with rows n0
  have e: "postNotifications (createPostNotification False ''n1'' ?reply notifyDb)
       = [\<lparr> notif_id = ''n1'', notif_byId = ''bob'', notif_toId = ''ann'',
            notif_type = REPLIED, notif_postId = Some ''p2'' \<rparr>]"
    by simp
  from a b c d e show ?thesis by simp
qed

section \<open>Soft delete\<close>

lemma deletePost_store:
  assumes "fst (deletePost postId userId s) = Ok True"
  shows "snd (deletePost postId userId s) =
     s\<lparr> posts := map (\<lambda>p. if post_id p = postId
                          then p\<lparr> post_content := None, post_deleted := Some True,
                                  post_estimateLikes := 0 \<rparr>
                          else p) (posts s),
        postLikes := filter (\<lambda>l. like_postId l \<noteq> postId) (postLikes s),
        postPolls := filter (\<lambda>pl. poll_postId pl \<noteq> postId) (postPolls s),
        attachments := filter (\<lambda>a. att_postId a \<noteq> Some postId) (attachments s),
        announcementPosts := filter (\<lambda>i. i \<noteq> postId) (announcementPosts s) \<rparr>"
  using assms
  by (cases "find (\<lambda>p. post_id p = postId \<and> post_createdById p = userId) (posts s)")
    (simp_all add: deletePost_def)

lemma deletePost_softDeleted:
  assumes ok: "fst (deletePost postId userId s) = Ok True"
    and p: "p \<in> set (posts (snd (deletePost postId userId s)))" and i: "post_id p = postId"
  shows "post_deleted p = Some True \<and> softDeleted (snd (deletePost postId userId s)) p"
proof -
  note st = deletePost_store [OF ok]
  from p obtain q where q: "q \<in> set (posts s)"
    and pq: "p = (if post_id q = postId
                  then q\<lparr> post_content := None, post_deleted := Some True,
                          post_estimateLikes := 0 \<rparr> else q)"
    unfolding st by auto
  from pq i have e: "p = q\<lparr> post_content := None, post_deleted := Some True,
                          post_estimateLikes := 0 \<rparr>"
    by (cases "post_id q = postId") simp_all
  have "softDeleted (snd (deletePost postId userId s)) p"
    unfolding st softDeleted_def using i by (simp add: e filter_empty_conv)
  with e show ?thesis by simp
qed

text \<open>
  C1: a deleted post has no content, an approximate like counter of 0 and no like, poll
  or attachment rows. \<^verbatim>\<open>deletePost\<close> establishes this (\<open>deletePost_softDeleted\<close>). The
  scheduled sweep does not: it empties and flags the post and removes its likes, but
  leaves \<^verbatim>\<open>estimateLikes\<close> as it was. After one run on \<open>sweepDb\<close> the post \<open>p1\<close> is
  deleted, has no like rows and still counts 1 like.
\<close>

theorem sweep_keeps_estimateLikes:
  "map (\<lambda>p. (post_id p, post_deleted p, post_content p, post_estimateLikes p))
      (posts (fst (deleteAccountContent sweepDb)))
     = [(''p1'', Some True, None, 1)]
   \<and> postLikes (fst (deleteAccountContent sweepDb)) = []"
  by (simp add: deleteAccountContent_def sweepDb_def emptyDb_def mkPost_def mkAccount_def Let_def
      scheduledForContentDeletion_def orderDesc_def firstPaths_def)


section \<open>Liking a post\<close>

lemma likePost_checks_keep_store:
  assumes "fst (likePost U l n now cf tf userId postId s) = Err m"
    and "m \<noteq> ''Something went wrong! Try again later.''"
  shows "snd (likePost U l n now cf tf userId postId s) = s"
proof (cases "find (\<lambda>p. post_deleted p = None \<and> post_id p = postId) (posts s)")
  case None
  then show ?thesis by (simp add: likePost_def)
next
  case (Some post)
  show ?thesis
  proof (cases "find (\<lambda>l. like_likedById l = userId \<and> like_postId l = postId) (postLikes s) \<noteq> None
      \<or> getBlockedUserIds U (friends s) [post_createdById post] userId \<noteq> []")
    case True
    with Some show ?thesis by (auto simp: likePost_def)
  next
    case False
    with Some assms show ?thesis
      by (cases cf) (simp_all add: likePost_def Let_def)
  qed
qed

lemma likePost_failed_insert:
  assumes "find (\<lambda>p. post_deleted p = None \<and> post_id p = postId) (posts s) = Some post"
    and "find (\<lambda>l. like_likedById l = userId \<and> like_postId l = postId) (postLikes s) = None"
    and "getBlockedUserIds U (friends s) [post_createdById post] userId = []"
  shows "likePost U l n now True tf userId postId s
     = (Err ''Something went wrong! Try again later.'',
        s\<lparr>posts := incrementEstimateLikes postId (posts s)\<rparr>)"
  using assms by (simp add: likePost_def Let_def)

text \<open>
  C9: a call that returns an error leaves the store unchanged. For \<^verbatim>\<open>likePost\<close> this
  holds for the three checks (\<open>likePost_checks_keep_store\<close>), and fails when the insert
  of the like row is rejected: the counter has been incremented before the insert and
  stays incremented (\<open>likePost_failed_insert\<close>). On \<open>notifyDb\<close>, \<open>bob\<close> likes \<open>p1\<close>,
  the insert is rejected, the call returns the error, and \<open>p1\<close> counts 1 like with no
  like row.
\<close>

theorem likePost_failed_insert_keeps_increment:
  "fst (likePost specUserService ''l1'' ''n1'' 5 True False ''bob'' ''p1'' notifyDb)
     = Err ''Something went wrong! Try again later.''
   \<and> map post_estimateLikes (posts notifyDb) = [0, 0]
   \<and> map post_estimateLikes
        (posts (snd (likePost specUserService ''l1'' ''n1'' 5 True False ''bob'' ''p1'' notifyDb)))
       = [1, 0]
   \<and> postLikes (snd (likePost specUserService ''l1'' ''n1'' 5 True False ''bob'' ''p1'' notifyDb))
       = []"
  by (simp add: likePost_def incrementEstimateLikes_def specUserService_def notifyDb_def
      emptyDb_def mkPost_def mkAccount_def Let_def)


section \<open>Fetching one post\<close>

lemma find_orderDesc_None: "find P (orderDesc f xs) = None \<longleftrightarrow> find P xs = None"
  by (simp add: find_None_iff set_orderDesc)

lemma find_orderDesc_Some:
  "find P (orderDesc f xs) = Some p \<Longrightarrow> p \<in> set xs \<and> P p"
  by (auto simp: find_Some_iff set_orderDesc dest: nth_mem)

lemma constructInclude_parent:
  "fp_commentTo (constructInclude s r p)
     = map_option (\<lambda>c. constructIncludeInner s r c None) (commentToOf s p)"
  by (simp add: constructInclude_def constructIncludeInner_def commentToOf_def
      split: option.splits)

lemma constructInclude_createdBy:
  "fp_createdBy (constructInclude s r p) = find (\<lambda>u. user_id u = post_createdById p) (users s)"
  by (simp add: constructInclude_def constructIncludeInner_def)

lemma template_unfold:
  "constructBlockedPostTemplate U s r b fp =
     BlockedPost (post_id (fp_row fp)) (post_commentToId (fp_row fp)) (fp_createdBy fp)
       (map_option (\<lambda>c. if \<not> b \<and> isUserBlocked U (friends s) r (post_createdById (fp_row c))
                         then constructBlockedPostTemplate U s r b c else Post c)
          (fp_commentTo fp))
       (post_quotedPostId (fp_row fp)) True"
  by (cases fp) (simp split: option.splits)

lemma fetchPost_found:
  assumes "find (\<lambda>p. post_id p = fo_postId opts) (orderDesc post_createdAt (posts s)) = Some p"
  shows "fetchPost U s opts =
     Some (if \<not> fo_bypassBlocked opts
              \<and> isUserBlocked U (friends s) (fo_requesterUserId opts) (post_createdById p)
           then constructBlockedPostTemplate U s (fo_requesterUserId opts)
                  (fo_bypassBlocked opts) (constructInclude s (fo_requesterUserId opts) p)
           else Post (constructInclude s (fo_requesterUserId opts) p))"
  using assms by (simp add: fetchPost_def Let_def)

lemma template_chain:
  "viewChain (constructBlockedPostTemplate U s r b fp) = fetchedChain fp"
  by (induction U s r b fp rule: constructBlockedPostTemplate.induct)
    (simp split: option.splits)

text \<open>
  C4, as stated, fails: the placeholder keeps \<^verbatim>\<open>quotedPostId\<close> as well, so it does not
  retain the identifier, the parent link, the author and the marker only. \<open>bob\<close> fetches
  \<open>p3\<close>, which quotes \<open>p0\<close>.
\<close>

theorem placeholder_keeps_quotedPostId:
  "fetchPost specUserService threadDb
      \<lparr> fo_postId = ''p3'', fo_requesterUserId = ''bob'', fo_bypassBlocked = False \<rparr>
     = Some (BlockedPost ''p3'' (Some ''p2'')
               (Some \<lparr> user_id = ''eve'', user_username = ''Eve'' \<rparr>)
               (Some (BlockedPost ''p2'' (Some ''p1'')
                        (Some \<lparr> user_id = ''eve'', user_username = ''Eve'' \<rparr>)
                        None None True))
               (Some ''p0'') True)"
  by (simp add: fetchPost_def constructInclude_def constructIncludeInner_def orderDesc_def
      specUserService_def threadDb_def emptyDb_def mkPost_def)

text \<open>
  C4, amended: when the gate reports the requester blocked by the author of the fetched
  post and bypass is not requested, \<^verbatim>\<open>fetchPost\<close> returns a placeholder with the
  post's \<^verbatim>\<open>id\<close>, \<^verbatim>\<open>commentToId\<close>, author, \<^verbatim>\<open>quotedPostId\<close> and \<^verbatim>\<open>block = true\<close>, and
  with neither content, counts, attachments nor poll. The fetch includes one parent: it
  is replaced by such a placeholder, with no parent of its own, when the gate reports the
  requester blocked by its author, and is passed on in full otherwise; there is none when
  the post has no parent.
\<close>

theorem fetchPost_blocked:
  "find (\<lambda>p. post_id p = fo_postId opts) (orderDesc post_createdAt (posts s)) = Some p
   \<and> \<not> fo_bypassBlocked opts
   \<and> isUserBlocked U (friends s) (fo_requesterUserId opts) (post_createdById p) \<longrightarrow>
   fetchPost U s opts =
     Some (BlockedPost (post_id p) (post_commentToId p)
             (find (\<lambda>u. user_id u = post_createdById p) (users s))
             (map_option
                (\<lambda>c. if isUserBlocked U (friends s) (fo_requesterUserId opts) (post_createdById c)
                     then BlockedPost (post_id c) (post_commentToId c)
                            (find (\<lambda>u. user_id u = post_createdById c) (users s))
                            None (post_quotedPostId c) True
                     else Post (constructIncludeInner s (fo_requesterUserId opts) c None))
                (commentToOf s p))
             (post_quotedPostId p) True)"
proof
  assume a: "find (\<lambda>p. post_id p = fo_postId opts) (orderDesc post_createdAt (posts s)) = Some p
   \<and> \<not> fo_bypassBlocked opts
   \<and> isUserBlocked U (friends s) (fo_requesterUserId opts) (post_createdById p)"
  let ?r = "fo_requesterUserId opts"
  have inner: "constructBlockedPostTemplate U s ?r False (constructIncludeInner s ?r c None)
      = BlockedPost (post_id c) (post_commentToId c)
          (find (\<lambda>u. user_id u = post_createdById c) (users s)) None (post_quotedPostId c) True"
    for c
    by (simp add: constructIncludeInner_def)
  have "fetchPost U s opts
      = Some (constructBlockedPostTemplate U s ?r False (constructInclude s ?r p))"
    using a by (simp add: fetchPost_def)
  also have "constructBlockedPostTemplate U s ?r False (constructInclude s ?r p)
      = BlockedPost (post_id p) (post_commentToId p)
             (find (\<lambda>u. user_id u = post_createdById p) (users s))
             (map_option
                (\<lambda>c. if isUserBlocked U (friends s) ?r (post_createdById c)
                     then BlockedPost (post_id c) (post_commentToId c)
                            (find (\<lambda>u. user_id u = post_createdById c) (users s))
                            None (post_quotedPostId c) True
                     else Post (constructIncludeInner s ?r c None))
                (commentToOf s p))
             (post_quotedPostId p) True"
    by (subst template_unfold)
      (simp add: fp_row_constructInclude constructInclude_parent constructInclude_createdBy
        option.map_comp comp_def inner, simp add: constructIncludeInner_def cong: if_cong)
  finally show "fetchPost U s opts =
     Some (BlockedPost (post_id p) (post_commentToId p)
             (find (\<lambda>u. user_id u = post_createdById p) (users s))
             (map_option
                (\<lambda>c. if isUserBlocked U (friends s) (fo_requesterUserId opts) (post_createdById c)
                     then BlockedPost (post_id c) (post_commentToId c)
                            (find (\<lambda>u. user_id u = post_createdById c) (users s))
                            None (post_quotedPostId c) True
                     else Post (constructIncludeInner s (fo_requesterUserId opts) c None))
                (commentToOf s p))
             (post_quotedPostId p) True)" .
qed


theorem fetchPost_blocked_witness:
  "isUserBlocked specUserService (friends threadDb) ''bob'' ''eve''
   \<and> \<not> isUserBlocked specUserService (friends threadDb) ''bob'' ''ann''
   \<and> fetchPost specUserService threadDb
        \<lparr> fo_postId = ''p2'', fo_requesterUserId = ''bob'', fo_bypassBlocked = False \<rparr>
       = Some (BlockedPost ''p2'' (Some ''p1'')
                 (Some \<lparr> user_id = ''eve'', user_username = ''Eve'' \<rparr>)
                 (Some (Post (constructIncludeInner threadDb ''bob'' (mkPost ''p1'' ''ann'' 1)
                                None)))
                 None True)"
proof -
  let ?opts = "\<lparr> fo_postId = ''p2'', fo_requesterUserId = ''bob'', fo_bypassBlocked = False \<rparr>"
  let ?p2 = "(mkPost ''p2'' ''eve'' 2)\<lparr>post_commentToId := Some ''p1''\<rparr>"
  have f: "find (\<lambda>p. post_id p = fo_postId ?opts) (orderDesc post_createdAt (posts threadDb))
      = Some ?p2"
    by (simp add: orderDesc_def threadDb_def emptyDb_def mkPost_def)
  have b: "isUserBlocked specUserService (friends threadDb) ''bob'' ''eve''"
    and nb: "\<not> isUserBlocked specUserService (friends threadDb) ''bob'' ''ann''"
    by (simp_all add: specUserService_def threadDb_def emptyDb_def)
  have c: "commentToOf threadDb ?p2 = Some (mkPost ''p1'' ''ann'' 1)"
    by (simp add: commentToOf_def threadDb_def emptyDb_def mkPost_def)
  have u: "find (\<lambda>u. user_id u = ''eve'') (users threadDb)
      = Some \<lparr> user_id = ''eve'', user_username = ''Eve'' \<rparr>"
    by (simp add: threadDb_def emptyDb_def)
  from f b nb c u fetchPost_blocked [of ?opts threadDb ?p2 specUserService]
  show ?thesis by (simp add: mkPost_def)
qed

lemma template_constructInclude:
  "constructBlockedPostTemplate U s r False (constructInclude s r p)
     = BlockedPost (post_id p) (post_commentToId p)
         (find (\<lambda>u. user_id u = post_createdById p) (users s))
         (map_option
            (\<lambda>c. if isUserBlocked U (friends s) r (post_createdById c)
                 then BlockedPost (post_id c) (post_commentToId c)
                        (find (\<lambda>u. user_id u = post_createdById c) (users s))
                        None (post_quotedPostId c) True
                 else Post (constructIncludeInner s r c None))
            (commentToOf s p))
         (post_quotedPostId p) True"
proof -
  have inner: "constructBlockedPostTemplate U s r False (constructIncludeInner s r c None)
      = BlockedPost (post_id c) (post_commentToId c)
          (find (\<lambda>u. user_id u = post_createdById c) (users s)) None (post_quotedPostId c) True"
    for c
    by (simp add: constructIncludeInner_def)
  show ?thesis
    by (subst template_unfold)
      (simp add: fp_row_constructInclude constructInclude_parent constructInclude_createdBy
        option.map_comp comp_def inner, simp add: constructIncludeInner_def cong: if_cong)
qed

text \<open>
  C10, as stated, fails: \<^verbatim>\<open>fetchPost\<close> does not return the post record for every
  deleted post. \<open>eve\<close>, who has blocked \<open>bob\<close>, has deleted \<open>p3\<close>; \<open>bob\<close> fetches it
  and gets its placeholder.
\<close>

theorem fetchPost_deleted_blocked_is_placeholder:
  "map (\<lambda>p. (post_id p, post_deleted p, post_content p)) (posts blockedDeletedDb)
     = [(''p1'', None, Some ''hello''), (''p2'', None, Some ''hello''), (''p3'', Some True, None)]
   \<and> fetchPost specUserService blockedDeletedDb
        \<lparr> fo_postId = ''p3'', fo_requesterUserId = ''bob'', fo_bypassBlocked = False \<rparr>
       = Some (BlockedPost ''p3'' (Some ''p2'')
                 (Some \<lparr> user_id = ''eve'', user_username = ''Eve'' \<rparr>)
                 (Some (BlockedPost ''p2'' (Some ''p1'')
                          (Some \<lparr> user_id = ''eve'', user_username = ''Eve'' \<rparr>)
                          None None True))
                 (Some ''p0'') True)"
  by (simp add: blockedDeletedDb_def deletePost_def fetchPost_def constructInclude_def
      constructIncludeInner_def orderDesc_def specUserService_def threadDb_def emptyDb_def
      mkPost_def)

text \<open>
  C10, amended: \<^verbatim>\<open>fetchPost\<close> has no filter on \<^verbatim>\<open>deleted\<close>. For the identifier of a
  deleted post it returns the stored row with its inclusions, still flagged deleted,
  when bypass is requested or the gate does not report the requester blocked by the
  author, and the row's placeholder otherwise; it never returns null for it.
  \<^verbatim>\<open>editPost\<close>, \<^verbatim>\<open>likePost\<close> and \<^verbatim>\<open>getPostLikes\<close> report \<^verbatim>\<open>Post not found\<close> for it and
  leave the store as it is.
\<close>

theorem fetchPost_ignores_soft_delete:
  "find (\<lambda>p. post_id p = pid) (orderDesc post_createdAt (posts s)) = Some p
   \<and> (\<forall>q \<in> set (posts s). post_id q = pid \<longrightarrow> post_deleted q \<noteq> None) \<longrightarrow>
   p \<in> set (posts s) \<and> post_id p = pid \<and> post_deleted p \<noteq> None
   \<and> fetchPost U s \<lparr> fo_postId = pid, fo_requesterUserId = r, fo_bypassBlocked = b \<rparr>
       = Some (if \<not> b \<and> isUserBlocked U (friends s) r (post_createdById p)
               then BlockedPost (post_id p) (post_commentToId p)
                      (find (\<lambda>u. user_id u = post_createdById p) (users s))
                      (map_option
                         (\<lambda>c. if isUserBlocked U (friends s) r (post_createdById c)
                              then BlockedPost (post_id c) (post_commentToId c)
                                     (find (\<lambda>u. user_id u = post_createdById c) (users s))
                                     None (post_quotedPostId c) True
                              else Post (constructIncludeInner s r c None))
                         (commentToOf s p))
                      (post_quotedPostId p) True
               else Post (constructInclude s r p))
   \<and> fp_row (constructInclude s r p) = p
   \<and> editPost rbw now uf e pid content s = (Err ''Post not found'', s)
   \<and> likePost U l n now' cf tf e pid s = (Err ''Post not found'', s)
   \<and> getPostLikes s pid = Err ''Post not found''"
proof
  assume a: "find (\<lambda>p. post_id p = pid) (orderDesc post_createdAt (posts s)) = Some p
   \<and> (\<forall>q \<in> set (posts s). post_id q = pid \<longrightarrow> post_deleted q \<noteq> None)"
  let ?opts = "\<lparr> fo_postId = pid, fo_requesterUserId = r, fo_bypassBlocked = b \<rparr>"
  from a have p: "find (\<lambda>p. post_id p = pid) (orderDesc post_createdAt (posts s)) = Some p"
    by blast
  from a have del: "\<And>q. q \<in> set (posts s) \<Longrightarrow> post_id q = pid \<Longrightarrow> post_deleted q \<noteq> None"
    by blast
  from find_orderDesc_Some [OF p] have pp: "p \<in> set (posts s)" "post_id p = pid"
    by blast+
  from del [OF pp] have pd: "post_deleted p \<noteq> None" .
  have 1: "fetchPost U s ?opts
       = Some (if \<not> b \<and> isUserBlocked U (friends s) r (post_createdById p)
               then BlockedPost (post_id p) (post_commentToId p)
                      (find (\<lambda>u. user_id u = post_createdById p) (users s))
                      (map_option
                         (\<lambda>c. if isUserBlocked U (friends s) r (post_createdById c)
                              then BlockedPost (post_id c) (post_commentToId c)
                                     (find (\<lambda>u. user_id u = post_createdById c) (users s))
                                     None (post_quotedPostId c) True
                              else Post (constructIncludeInner s r c None))
                         (commentToOf s p))
                      (post_quotedPostId p) True
               else Post (constructInclude s r p))"
  proof (cases "\<not> b \<and> isUserBlocked U (friends s) r (post_createdById p)")
    case True
    then have nb: "b = False" by blast
    from True p have "fetchPost U s ?opts
        = Some (constructBlockedPostTemplate U s r False (constructInclude s r p))"
      by (simp add: fetchPost_found)
    also have "\<dots> = Some (BlockedPost (post_id p) (post_commentToId p)
                      (find (\<lambda>u. user_id u = post_createdById p) (users s))
                      (map_option
                         (\<lambda>c. if isUserBlocked U (friends s) r (post_createdById c)
                              then BlockedPost (post_id c) (post_commentToId c)
                                     (find (\<lambda>u. user_id u = post_createdById c) (users s))
                                     None (post_quotedPostId c) True
                              else Post (constructIncludeInner s r c None))
                         (commentToOf s p))
                      (post_quotedPostId p) True)"
      by (simp only: template_constructInclude)
    finally show ?thesis by (simp only: if_P [OF True])
  next
    case False
    with p have "fetchPost U s ?opts = Some (Post (constructInclude s r p))"
      by (auto simp: fetchPost_found)
    then show ?thesis by (simp only: if_not_P [OF False])
  qed
  have none: "find (\<lambda>p. post_deleted p = None \<and> post_id p = pid) (posts s) = None"
    and none': "find (\<lambda>p. post_createdById p = e \<and> post_deleted p = None \<and> post_id p = pid)
       (posts s) = None"
    unfolding find_None_iff using del by blast+
  have 2: "editPost rbw now uf e pid content s = (Err ''Post not found'', s)"
    by (simp add: editPost_def none')
  have 3: "likePost U l n now' cf tf e pid s = (Err ''Post not found'', s)"
    by (simp add: likePost_def none)
  have 4: "getPostLikes s pid = Err ''Post not found''"
    by (simp add: getPostLikes_def none)
  from pp pd 1 2 3 4 fp_row_constructInclude [of s r p]
  show "p \<in> set (posts s) \<and> post_id p = pid \<and> post_deleted p \<noteq> None
   \<and> fetchPost U s ?opts
       = Some (if \<not> b \<and> isUserBlocked U (friends s) r (post_createdById p)
               then BlockedPost (post_id p) (post_commentToId p)
                      (find (\<lambda>u. user_id u = post_createdById p) (users s))
                      (map_option
                         (\<lambda>c. if isUserBlocked U (friends s) r (post_createdById c)
                              then BlockedPost (post_id c) (post_commentToId c)
                                     (find (\<lambda>u. user_id u = post_createdById c) (users s))
                                     None (post_quotedPostId c) True
                              else Post (constructIncludeInner s r c None))
                         (commentToOf s p))
                      (post_quotedPostId p) True
               else Post (constructInclude s r p))
   \<and> fp_row (constructInclude s r p) = p
   \<and> editPost rbw now uf e pid content s = (Err ''Post not found'', s)
   \<and> likePost U l n now' cf tf e pid s = (Err ''Post not found'', s)
   \<and> getPostLikes s pid = Err ''Post not found''"
    by (intro conjI)
qed

theorem fetchPost_ignores_soft_delete_witness:
  "map (\<lambda>p. (post_id p, post_deleted p, post_content p)) (posts deletedDb)
     = [(''p1'', Some True, None), (''p2'', None, Some ''hello''), (''p3'', None, Some ''hello'')]
   \<and> \<not> isUserBlocked specUserService (friends deletedDb) ''bob'' ''ann''
   \<and> fetchPost specUserService deletedDb
        \<lparr> fo_postId = ''p1'', fo_requesterUserId = ''bob'', fo_bypassBlocked = False \<rparr>
       = Some (Post (constructInclude deletedDb ''bob''
                  ((mkPost ''p1'' ''ann'' 1)\<lparr> post_content := None, post_deleted := Some True \<rparr>)))
   \<and> fp_row (constructInclude deletedDb ''bob''
        ((mkPost ''p1'' ''ann'' 1)\<lparr> post_content := None, post_deleted := Some True \<rparr>))
       = (mkPost ''p1'' ''ann'' 1)\<lparr> post_content := None, post_deleted := Some True \<rparr>
   \<and> editPost (\<lambda>c. c) 9 False ''ann'' ''p1'' ''again'' deletedDb
       = (Err ''Post not found'', deletedDb)
   \<and> likePost specUserService ''l1'' ''n1'' 9 False False ''ann'' ''p1'' deletedDb
       = (Err ''Post not found'', deletedDb)
   \<and> getPostLikes deletedDb ''p1'' = Err ''Post not found''"
proof -
  let ?p1 = "(mkPost ''p1'' ''ann'' 1)\<lparr> post_content := None, post_deleted := Some True \<rparr>"
  have ps: "map (\<lambda>p. (post_id p, post_deleted p, post_content p)) (posts deletedDb)
     = [(''p1'', Some True, None), (''p2'', None, Some ''hello''), (''p3'', None, Some ''hello'')]"
    by (simp add: deletedDb_def deletePost_def feedDb_def emptyDb_def mkPost_def)
  have f: "find (\<lambda>p. post_id p = ''p1'') (orderDesc post_createdAt (posts deletedDb)) = Some ?p1"
    by (simp add: orderDesc_def deletedDb_def deletePost_def feedDb_def emptyDb_def mkPost_def)
  have d: "\<forall>q \<in> set (posts deletedDb). post_id q = ''p1'' \<longrightarrow> post_deleted q \<noteq> None"
    by (simp add: deletedDb_def deletePost_def feedDb_def emptyDb_def mkPost_def
        del: not_None_eq)
  have nb: "\<not> isUserBlocked specUserService (friends deletedDb) ''bob'' ''ann''"
    by (simp add: specUserService_def deletedDb_def deletePost_def feedDb_def emptyDb_def)
  have a: "post_createdById ?p1 = ''ann''"
    by (simp add: mkPost_def)
  from f d
    fetchPost_ignores_soft_delete [of "''p1''" deletedDb ?p1 specUserService "''bob''" False
      "\<lambda>c. c" 9 False "''ann''" "''again''" "''l1''" "''n1''" 9 False False]
  have "fetchPost specUserService deletedDb
        \<lparr> fo_postId = ''p1'', fo_requesterUserId = ''bob'', fo_bypassBlocked = False \<rparr>
       = Some (if \<not> False \<and> isUserBlocked specUserService (friends deletedDb) ''bob''
                    (post_createdById ?p1)
               then BlockedPost (post_id ?p1) (post_commentToId ?p1)
                      (find (\<lambda>u. user_id u = post_createdById ?p1) (users deletedDb))
                      (map_option
                         (\<lambda>c. if isUserBlocked specUserService (friends deletedDb) ''bob''
                                   (post_createdById c)
                              then BlockedPost (post_id c) (post_commentToId c)
                                     (find (\<lambda>u. user_id u = post_createdById c)
                                        (users deletedDb))
                                     None (post_quotedPostId c) True
                              else Post (constructIncludeInner deletedDb ''bob'' c None))
                         (commentToOf deletedDb ?p1))
                      (post_quotedPostId ?p1) True
               else Post (constructInclude deletedDb ''bob'' ?p1))"
    and r: "fp_row (constructInclude deletedDb ''bob'' ?p1) = ?p1"
    and e: "editPost (\<lambda>c. c) 9 False ''ann'' ''p1'' ''again'' deletedDb
       = (Err ''Post not found'', deletedDb)"
    and l: "likePost specUserService ''l1'' ''n1'' 9 False False ''ann'' ''p1'' deletedDb
       = (Err ''Post not found'', deletedDb)"
    and g: "getPostLikes deletedDb ''p1'' = Err ''Post not found''"
    by blast+
  with nb a have fp: "fetchPost specUserService deletedDb
        \<lparr> fo_postId = ''p1'', fo_requesterUserId = ''bob'', fo_bypassBlocked = False \<rparr>
       = Some (Post (constructInclude deletedDb ''bob'' ?p1))"
    by simp
  from ps nb fp r e l g show ?thesis by (intro conjI)
qed

end
